theory Spec2Isabelle
  imports Complex_Main "HOL-Library.Word"
begin

unbundle bit_operations_syntax

text \<open>
  A shallow embedding of the EdgePlug runtime (the C sources under runtime/src): the
  pre-processing window, the hot-swap engine, the actuator layer, the agent loader and the
  inference module. Each module's statics are a record that every function takes and
  returns; a pointer argument is an option, with \<open>None\<close> for NULL, and a buffer handed
  over with its size is a list whose length is the size; fixed-width integers are words.
  The first part holds the definitions, module by module in the order of the sources; the
  second part states and proves the properties.
\<close>

section \<open>Common types of the runtime (edgeplug\_runtime.h)\<close>

type_synonym u8 = "8 word"
type_synonym u16 = "16 word"
type_synonym u32 = "32 word"
type_synonym u64 = "64 word"

text \<open>The status codes of \<^verbatim>\<open>edgeplug_status_t\<close>.\<close>

datatype edgeplug_status =
    EDGEPLUG_OK
  | EDGEPLUG_ERROR_INVALID_PARAM
  | EDGEPLUG_ERROR_MEMORY
  | EDGEPLUG_ERROR_AGENT_LOAD
  | EDGEPLUG_ERROR_INFERENCE
  | EDGEPLUG_ERROR_ACTUATION
  | EDGEPLUG_ERROR_SAFETY
  | EDGEPLUG_ERROR_HOTSWAP

text \<open>
  \<^verbatim>\<open>edgeplug_sensor_data_t\<close>. The two \<^verbatim>\<open>float\<close> fields are modelled as
  real numbers: the arithmetic of the filter is the exact one, rounding is not modelled.
\<close>

record edgeplug_sensor_data =
  voltage :: real
  current :: real
  timestamp :: u64
  quality :: u8

section \<open>Pre-processing (preprocess.c)\<close>

text \<open>
  The file-level statics of preprocess.c, together with the function-level static
  \<^verbatim>\<open>filtered_voltage\<close> of \<^verbatim>\<open>preprocess_add_sample\<close>, which lives as long as
  the program and is written nowhere else.
\<close>

record preprocess_state =
  window_buffer :: "real list"
  window_index :: u32
  window_size :: u32
  window_full :: bool
  voltage_mean :: real
  voltage_std :: real
  current_mean :: real
  current_std :: real
  filter_alpha :: real
  filtered_voltage :: real

definition WINDOW_BUFFER_SIZE :: nat where
  "WINDOW_BUFFER_SIZE = 1024"

definition MAX_WINDOW_SIZE :: u32 where
  "MAX_WINDOW_SIZE = 256"

text \<open>The values the statics have when the program starts.\<close>

definition preprocess_start :: preprocess_state where
  "preprocess_start =
     \<lparr> window_buffer = replicate WINDOW_BUFFER_SIZE 0,
       window_index = 0,
       window_size = 64,
       window_full = False,
       voltage_mean = 120,
       voltage_std = 10,
       current_mean = 1,
       current_std = 1 / 10,
       filter_alpha = 1 / 10,
       filtered_voltage = 0 \<rparr>"

definition preprocess_init :: "u32 \<Rightarrow> preprocess_state \<Rightarrow> edgeplug_status \<times> preprocess_state" where
  "preprocess_init window_sz st =
     (if window_sz = 0 \<or> window_sz > MAX_WINDOW_SIZE then (EDGEPLUG_ERROR_INVALID_PARAM, st)
      else (EDGEPLUG_OK,
            st\<lparr> window_size := window_sz,
                window_index := 0,
                window_full := False,
                window_buffer := replicate WINDOW_BUFFER_SIZE 0 \<rparr>))"

text \<open>
  \<^verbatim>\<open>preprocess_add_sample\<close>. The argument is a pointer: \<open>None\<close> is NULL. The
  remainder \<^verbatim>\<open>% window_size\<close> is taken on 32-bit unsigned values; a window size of 0
  (which \<^verbatim>\<open>preprocess_init\<close> refuses) would divide by zero in C and is outside every
  statement below.
\<close>

definition preprocess_add_sample ::
  "edgeplug_sensor_data option \<Rightarrow> preprocess_state \<Rightarrow> edgeplug_status \<times> preprocess_state" where
  "preprocess_add_sample sensor_data st =
     (case sensor_data of
        None \<Rightarrow> (EDGEPLUG_ERROR_INVALID_PARAM, st)
      | Some s \<Rightarrow>
          (let fv = filter_alpha st * voltage s + (1 - filter_alpha st) * filtered_voltage st;
               buf = (window_buffer st)[unat (window_index st) := fv];
               idx = (window_index st + 1) mod window_size st
           in (EDGEPLUG_OK,
               st\<lparr> filtered_voltage := fv,
                   window_buffer := buf,
                   window_index := idx,
                   window_full := (if idx = 0 then True else window_full st) \<rparr>)))"

definition preprocess_set_filter :: "real \<Rightarrow> preprocess_state \<Rightarrow> edgeplug_status \<times> preprocess_state" where
  "preprocess_set_filter alpha st =
     (if alpha < 0 \<or> alpha > 1 then (EDGEPLUG_ERROR_INVALID_PARAM, st)
      else (EDGEPLUG_OK, st\<lparr> filter_alpha := alpha \<rparr>))"

definition preprocess_is_window_ready :: "preprocess_state \<Rightarrow> bool" where
  "preprocess_is_window_ready st = window_full st"

definition preprocess_reset :: "preprocess_state \<Rightarrow> edgeplug_status \<times> preprocess_state" where
  "preprocess_reset st =
     (EDGEPLUG_OK,
      st\<lparr> window_index := 0,
          window_full := False,
          window_buffer := replicate WINDOW_BUFFER_SIZE 0 \<rparr>)"

text \<open>A run of \<^verbatim>\<open>preprocess_add_sample\<close> calls, one for each sample of the list in order.\<close>

definition add_samples :: "preprocess_state \<Rightarrow> edgeplug_sensor_data list \<Rightarrow> preprocess_state" where
  "add_samples st ss = foldl (\<lambda>t s. snd (preprocess_add_sample (Some s) t)) st ss"

text \<open>
  The low-pass filter as the specification words it: each output is
  \<open>\<alpha>\<cdot>v + (1 - \<alpha>)\<cdot>prev\<close>, where \<open>prev\<close> is the previous output.
\<close>

fun iir_outputs :: "real \<Rightarrow> real \<Rightarrow> real list \<Rightarrow> real list" where
  "iir_outputs a prev [] = []"
| "iir_outputs a prev (v # vs) = (a * v + (1 - a) * prev) # iir_outputs a (a * v + (1 - a) * prev) vs"

section \<open>Hot-swap engine (hotswap.c)\<close>

text \<open>
  \<^verbatim>\<open>edgeplug_manifest_t\<close> (hotswap.c calls the type \<^verbatim>\<open>manifest_t\<close>). The two byte
  arrays hold 64 bytes each.
\<close>

record edgeplug_manifest =
  version :: u32
  agent_id :: u32
  flash_size :: u32
  sram_size :: u32
  signature :: "u8 list"
  hash :: "u8 list"

text \<open>
  \<^verbatim>\<open>agent_slot_metadata_t\<close>. The fields \<^verbatim>\<open>version\<close>, \<^verbatim>\<open>size\<close>,
  \<^verbatim>\<open>timestamp\<close> and \<^verbatim>\<open>signature\<close> carry the suffix \<open>_md\<close>, since the plain
  names are taken.
\<close>

record agent_slot_metadata =
  magic :: u32
  version_md :: u32
  size_md :: u32
  crc32 :: u32
  timestamp_md :: u32
  signature_md :: "u8 list"
  reserved :: "u8 list"

text \<open>\<^verbatim>\<open>hotswap_state_t\<close>.\<close>

record hotswap_state_t =
  active_slot :: u8
  update_in_progress :: u8
  update_start_time :: u32
  update_attempts :: u32
  successful_updates :: u32
  failed_updates :: u32
  last_update_timestamp :: u32

definition AGENT_SLOT_SIZE :: nat where
  "AGENT_SLOT_SIZE = 14 * 1024"

text \<open>\<^verbatim>\<open>sizeof(agent_slot_metadata_t)\<close>: five 32-bit words, 64 and 32 bytes.\<close>

definition SLOT_METADATA_SIZE :: nat where
  "SLOT_METADATA_SIZE = 116"

definition CRC32_POLYNOMIAL :: u32 where
  "CRC32_POLYNOMIAL = 0x04C11DB7"

text \<open>
  One slot of flash: the bytes from the slot's start up to the metadata block, and the
  metadata block stored in the last \<^verbatim>\<open>sizeof(agent_slot_metadata_t)\<close> bytes of the slot.
  No function of hotswap.c reads or writes a payload across that boundary: every size is
  checked against \<open>AGENT_SLOT_SIZE - SLOT_METADATA_SIZE\<close> first.
\<close>

record agent_slot =
  payload :: "u8 list"
  metadata :: agent_slot_metadata

text \<open>
  Everything hotswap.c keeps between calls: the static \<^verbatim>\<open>hotswap_state\<close>, the static
  \<^verbatim>\<open>crc32_table\<close>, the two flash slots at \<^verbatim>\<open>AGENT_SLOT_A_ADDR\<close> and
  \<^verbatim>\<open>AGENT_SLOT_B_ADDR\<close>, and the static \<^verbatim>\<open>time_counter\<close> of
  \<^verbatim>\<open>get_system_time_ms\<close>.
\<close>

record hotswap_sys =
  hotswap_state :: hotswap_state_t
  crc32_table :: "u32 list"
  flash_a :: agent_slot
  flash_b :: agent_slot
  time_counter :: u32

text \<open>The zeroed state \<^verbatim>\<open>{0}\<close> of \<^verbatim>\<open>hotswap_state\<close>.\<close>

definition hotswap_state_zero :: hotswap_state_t where
  "hotswap_state_zero =
     \<lparr> active_slot = 0, update_in_progress = 0, update_start_time = 0, update_attempts = 0,
       successful_updates = 0, failed_updates = 0, last_update_timestamp = 0 \<rparr>"

text \<open>The statics at program start, over flash contents \<open>a\<close> and \<open>b\<close> left by earlier runs.\<close>

definition hotswap_start :: "agent_slot \<Rightarrow> agent_slot \<Rightarrow> hotswap_sys" where
  "hotswap_start a b =
     \<lparr> hotswap_state = hotswap_state_zero, crc32_table = replicate 256 0,
       flash_a = a, flash_b = b, time_counter = 0 \<rparr>"

definition crc32_step :: "u32 \<Rightarrow> u32" where
  "crc32_step crc =
     (if crc AND 1 = 0 then drop_bit 1 crc else drop_bit 1 crc XOR CRC32_POLYNOMIAL)"

definition init_crc32_table :: "u32 list" where
  "init_crc32_table = map (\<lambda>i. (crc32_step ^^ 8) (of_nat i)) [0..<256]"

definition calculate_crc32 :: "u32 list \<Rightarrow> u8 list \<Rightarrow> u32" where
  "calculate_crc32 tbl data =
     foldl (\<lambda>crc b. drop_bit 8 crc XOR tbl ! unat ((crc XOR ucast b) AND 0xFF)) 0xFFFFFFFF data
       XOR 0xFFFFFFFF"

definition slot_of :: "hotswap_sys \<Rightarrow> u8 \<Rightarrow> agent_slot" where
  "slot_of s slot = (if slot = 0 then flash_a s else flash_b s)"

definition slot_update :: "u8 \<Rightarrow> (agent_slot \<Rightarrow> agent_slot) \<Rightarrow> hotswap_sys \<Rightarrow> hotswap_sys" where
  "slot_update slot f s = (if slot = 0 then s\<lparr> flash_a := f (flash_a s) \<rparr> else s\<lparr> flash_b := f (flash_b s) \<rparr>)"

text \<open>\<^verbatim>\<open>read_slot_metadata\<close>: \<open>None\<close> is the return value \<^verbatim>\<open>false\<close>.\<close>

definition read_slot_metadata :: "hotswap_sys \<Rightarrow> u8 \<Rightarrow> agent_slot_metadata option" where
  "read_slot_metadata s slot = (if slot > 1 then None else Some (metadata (slot_of s slot)))"

definition write_slot_metadata :: "u8 \<Rightarrow> agent_slot_metadata \<Rightarrow> hotswap_sys \<Rightarrow> hotswap_sys option" where
  "write_slot_metadata slot md s =
     (if slot > 1 then None else Some (slot_update slot (\<lambda>sl. sl\<lparr> metadata := md \<rparr>) s))"

text \<open>
  \<^verbatim>\<open>validate_agent_slot\<close>. The source compares the magic with the token
  \<^verbatim>\<open>0xEDGEPLUG\<close>, which is not a C integer constant; the magic is the parameter
  \<open>mg\<close> here and every statement below holds for each value of it.
\<close>

definition validate_agent_slot :: "u32 \<Rightarrow> hotswap_sys \<Rightarrow> u8 \<Rightarrow> bool" where
  "validate_agent_slot mg s slot =
     (case read_slot_metadata s slot of
        None \<Rightarrow> False
      | Some md \<Rightarrow>
          if magic md \<noteq> mg then False
          else if unat (size_md md) > AGENT_SLOT_SIZE - SLOT_METADATA_SIZE then False
          else if calculate_crc32 (crc32_table s) (take (unat (size_md md)) (payload (slot_of s slot)))
                  \<noteq> crc32 md then False
          else True)"

text \<open>\<^verbatim>\<open>get_system_time_ms\<close> of hotswap.c: \<^verbatim>\<open>return time_counter++\<close>.\<close>

definition get_system_time_ms :: "hotswap_sys \<Rightarrow> u32 \<times> hotswap_sys" where
  "get_system_time_ms s = (time_counter s, s\<lparr> time_counter := time_counter s + 1 \<rparr>)"

definition hotswap_init :: "u32 \<Rightarrow> hotswap_sys \<Rightarrow> edgeplug_status \<times> hotswap_sys" where
  "hotswap_init mg s0 =
     (let s = s0\<lparr> crc32_table := init_crc32_table, hotswap_state := hotswap_state_zero \<rparr>;
          slot_a_valid = validate_agent_slot mg s 0;
          slot_b_valid = validate_agent_slot mg s 1
      in if slot_a_valid \<and> slot_b_valid then
           (EDGEPLUG_OK,
            s\<lparr> hotswap_state := (hotswap_state s)
                 \<lparr> active_slot :=
                     (if timestamp_md (metadata (flash_a s)) > timestamp_md (metadata (flash_b s))
                      then 0 else 1) \<rparr> \<rparr>)
         else if slot_a_valid then
           (EDGEPLUG_OK, s\<lparr> hotswap_state := (hotswap_state s)\<lparr> active_slot := 0 \<rparr> \<rparr>)
         else if slot_b_valid then
           (EDGEPLUG_OK, s\<lparr> hotswap_state := (hotswap_state s)\<lparr> active_slot := 1 \<rparr> \<rparr>)
         else (EDGEPLUG_ERROR_HOTSWAP, s))"

definition get_inactive_slot :: "hotswap_sys \<Rightarrow> u8" where
  "get_inactive_slot s = (if active_slot (hotswap_state s) = 0 then 1 else 0)"

text \<open>
  \<^verbatim>\<open>write_agent_to_slot\<close>. The agent data and the manifest are pointers (\<open>None\<close> is
  NULL); \<^verbatim>\<open>agent_size\<close> is the length of the data.
\<close>

definition write_agent_to_slot ::
  "u32 \<Rightarrow> u8 \<Rightarrow> u8 list option \<Rightarrow> edgeplug_manifest option \<Rightarrow> hotswap_sys
     \<Rightarrow> edgeplug_status \<times> hotswap_sys" where
  "write_agent_to_slot mg slot agent_data manifest s =
     (case (agent_data, manifest) of
        (Some d, Some m) \<Rightarrow>
          if slot > 1 then (EDGEPLUG_ERROR_INVALID_PARAM, s)
          else if length d > AGENT_SLOT_SIZE - SLOT_METADATA_SIZE then (EDGEPLUG_ERROR_MEMORY, s)
          else
            (let s1 = slot_update slot (\<lambda>sl. sl\<lparr> payload := d @ drop (length d) (payload sl) \<rparr>) s;
                 (now, s2) = get_system_time_ms s1;
                 md = \<lparr> magic = mg, version_md = version m, size_md = of_nat (length d),
                        crc32 = calculate_crc32 (crc32_table s2) d, timestamp_md = now,
                        signature_md = take 64 (signature m), reserved = replicate 32 0 \<rparr>
             in case write_slot_metadata slot md s2 of
                  None \<Rightarrow> (EDGEPLUG_ERROR_HOTSWAP, s2)
                | Some s3 \<Rightarrow> (EDGEPLUG_OK, s3))
      | _ \<Rightarrow> (EDGEPLUG_ERROR_INVALID_PARAM, s))"

definition set_state :: "(hotswap_state_t \<Rightarrow> hotswap_state_t) \<Rightarrow> hotswap_sys \<Rightarrow> hotswap_sys" where
  "set_state f s = s\<lparr> hotswap_state := f (hotswap_state s) \<rparr>"

definition hotswap_update_agent ::
  "u32 \<Rightarrow> u8 list option \<Rightarrow> edgeplug_manifest option \<Rightarrow> hotswap_sys
     \<Rightarrow> edgeplug_status \<times> hotswap_sys" where
  "hotswap_update_agent mg new_agent_data new_manifest s =
     (case (new_agent_data, new_manifest) of
        (Some d, Some m) \<Rightarrow>
          if update_in_progress (hotswap_state s) \<noteq> 0 then (EDGEPLUG_ERROR_HOTSWAP, s)
          else
            (let (t0, s1) = get_system_time_ms s;
                 s2 = set_state (\<lambda>h. h\<lparr> update_in_progress := 1, update_start_time := t0,
                                        update_attempts := update_attempts h + 1 \<rparr>) s1;
                 inactive_slot = get_inactive_slot s2;
                 (status, s3) = write_agent_to_slot mg inactive_slot (Some d) (Some m) s2
             in if status \<noteq> EDGEPLUG_OK then
                  (status, set_state (\<lambda>h. h\<lparr> update_in_progress := 0,
                                             failed_updates := failed_updates h + 1 \<rparr>) s3)
                else if \<not> validate_agent_slot mg s3 inactive_slot then
                  (EDGEPLUG_ERROR_HOTSWAP,
                   set_state (\<lambda>h. h\<lparr> update_in_progress := 0,
                                     failed_updates := failed_updates h + 1 \<rparr>) s3)
                else
                  (let s4 = set_state (\<lambda>h. h\<lparr> active_slot := inactive_slot, update_in_progress := 0,
                                               successful_updates := successful_updates h + 1 \<rparr>) s3;
                       (t1, s5) = get_system_time_ms s4
                   in (EDGEPLUG_OK, set_state (\<lambda>h. h\<lparr> last_update_timestamp := t1 \<rparr>) s5)))
      | _ \<Rightarrow> (EDGEPLUG_ERROR_INVALID_PARAM, s))"

definition hotswap_rollback :: "u32 \<Rightarrow> hotswap_sys \<Rightarrow> edgeplug_status \<times> hotswap_sys" where
  "hotswap_rollback mg s =
     (let previous_slot = get_inactive_slot s
      in if \<not> validate_agent_slot mg s previous_slot then (EDGEPLUG_ERROR_HOTSWAP, s)
         else (EDGEPLUG_OK, set_state (\<lambda>h. h\<lparr> active_slot := previous_slot \<rparr>) s))"

definition hotswap_is_update_in_progress :: "hotswap_sys \<Rightarrow> bool" where
  "hotswap_is_update_in_progress s = (update_in_progress (hotswap_state s) \<noteq> 0)"

definition hotswap_get_active_slot :: "hotswap_sys \<Rightarrow> u8" where
  "hotswap_get_active_slot s = active_slot (hotswap_state s)"

text \<open>
  \<^verbatim>\<open>hotswap_watchdog_check\<close>. The duration is a difference of 32-bit unsigned
  values and wraps around; the status \<^verbatim>\<open>hotswap_rollback\<close> returns is dropped, as in
  the source.
\<close>

definition hotswap_watchdog_check :: "u32 \<Rightarrow> hotswap_sys \<Rightarrow> hotswap_sys" where
  "hotswap_watchdog_check mg s =
     (if update_in_progress (hotswap_state s) \<noteq> 0 then
        (let (current_time, s1) = get_system_time_ms s;
             update_duration = current_time - update_start_time (hotswap_state s1)
         in if update_duration > 30000 then
              set_state (\<lambda>h. h\<lparr> update_in_progress := 0, failed_updates := failed_updates h + 1 \<rparr>)
                (snd (hotswap_rollback mg s1))
            else s1)
      else s)"

definition hotswap_clear_slot :: "u8 \<Rightarrow> hotswap_sys \<Rightarrow> edgeplug_status \<times> hotswap_sys" where
  "hotswap_clear_slot slot s =
     (if slot > 1 then (EDGEPLUG_ERROR_INVALID_PARAM, s)
      else (EDGEPLUG_OK,
            slot_update slot
              (\<lambda>sl. \<lparr> payload = replicate (AGENT_SLOT_SIZE - SLOT_METADATA_SIZE) 0xFF,
                      metadata = \<lparr> magic = 0xFFFFFFFF, version_md = 0xFFFFFFFF, size_md = 0xFFFFFFFF,
                                   crc32 = 0xFFFFFFFF, timestamp_md = 0xFFFFFFFF,
                                   signature_md = replicate 64 0xFF, reserved = replicate 32 0xFF \<rparr> \<rparr>)
              s))"

text \<open>The public calls that write the engine's state or the flash, and a run of them.\<close>

datatype hotswap_call =
    Call_init
  | Call_update_agent "u8 list option" "edgeplug_manifest option"
  | Call_rollback
  | Call_watchdog_check
  | Call_clear_slot u8

fun hotswap_do :: "u32 \<Rightarrow> hotswap_sys \<Rightarrow> hotswap_call \<Rightarrow> hotswap_sys" where
  "hotswap_do mg s Call_init = snd (hotswap_init mg s)"
| "hotswap_do mg s (Call_update_agent d m) = snd (hotswap_update_agent mg d m s)"
| "hotswap_do mg s Call_rollback = snd (hotswap_rollback mg s)"
| "hotswap_do mg s Call_watchdog_check = hotswap_watchdog_check mg s"
| "hotswap_do mg s (Call_clear_slot slot) = snd (hotswap_clear_slot slot s)"

definition hotswap_run :: "u32 \<Rightarrow> hotswap_sys \<Rightarrow> hotswap_call list \<Rightarrow> hotswap_sys" where
  "hotswap_run mg s calls = foldl (hotswap_do mg) s calls"

text \<open>
  \<^verbatim>\<open>hotswap_update_agent\<close> from its entry checks up to and including its call of
  \<^verbatim>\<open>write_agent_to_slot\<close>: the flag is set, the start time is taken, the attempts are
  counted and the image and its metadata are written to the inactive slot. This is the
  state the engine is in while an update has been written and is not yet validated and
  committed.
\<close>

definition update_agent_write_step ::
  "u32 \<Rightarrow> u8 list \<Rightarrow> edgeplug_manifest \<Rightarrow> hotswap_sys \<Rightarrow> edgeplug_status \<times> hotswap_sys" where
  "update_agent_write_step mg d m s =
     (let (t0, s1) = get_system_time_ms s;
          s2 = set_state (\<lambda>h. h\<lparr> update_in_progress := 1, update_start_time := t0,
                                 update_attempts := update_attempts h + 1 \<rparr>) s1
      in write_agent_to_slot mg (get_inactive_slot s2) (Some d) (Some m) s2)"

text \<open>
  Example data: a slot that holds a valid agent of length 0 written at time \<open>ts\<close> (the
  CRC of no bytes is 0); a slot as \<^verbatim>\<open>hotswap_clear_slot\<close> leaves it; and an update that
  stalls after its write: the engine is initialised over a valid slot A and an erased slot
  B, and \<^verbatim>\<open>hotswap_update_agent\<close> has written the image 1, 2, 3 to slot B.
\<close>

definition empty_agent_slot :: "u32 \<Rightarrow> u32 \<Rightarrow> agent_slot" where
  "empty_agent_slot mg ts =
     \<lparr> payload = replicate (AGENT_SLOT_SIZE - SLOT_METADATA_SIZE) 0xFF,
       metadata = \<lparr> magic = mg, version_md = 1, size_md = 0, crc32 = 0, timestamp_md = ts,
                    signature_md = replicate 64 0, reserved = replicate 32 0 \<rparr> \<rparr>"

definition erased_slot :: agent_slot where
  "erased_slot =
     \<lparr> payload = replicate (AGENT_SLOT_SIZE - SLOT_METADATA_SIZE) 0xFF,
       metadata = \<lparr> magic = 0xFFFFFFFF, version_md = 0xFFFFFFFF, size_md = 0xFFFFFFFF,
                    crc32 = 0xFFFFFFFF, timestamp_md = 0xFFFFFFFF,
                    signature_md = replicate 64 0xFF, reserved = replicate 32 0xFF \<rparr> \<rparr>"

definition stalled_update :: hotswap_sys where
  "stalled_update =
     snd (update_agent_write_step 0xED6E [1, 2, 3]
            \<lparr> version = 2, agent_id = 1, flash_size = 3, sram_size = 4,
              signature = replicate 64 0x11, hash = replicate 64 0 \<rparr>
            (snd (hotswap_init 0xED6E (hotswap_start (empty_agent_slot 0xED6E 5) erased_slot))))"

section \<open>Platform clock\<close>

text \<open>
  \<^verbatim>\<open>get_system_time_ms\<close> of actuator.c and infer.c returns what a platform timer
  shows (SysTick, DWT, TIM2 or PIT, chosen at compile time) and falls back to a software
  timer that counts its own calls. The timer is the environment's: it is modelled as the
  sequence of values the successive reads return, together with the number of reads made
  so far. The software timer is the sequence 0, 1, 2, ...
\<close>

record platform_clock =
  readings :: "nat \<Rightarrow> u32"
  reads :: nat

definition clock_read :: "platform_clock \<Rightarrow> u32 \<times> platform_clock" where
  "clock_read c = (readings c (reads c), c\<lparr> reads := Suc (reads c) \<rparr>)"

definition software_timer :: platform_clock where
  "software_timer = \<lparr> readings = of_nat, reads = 0 \<rparr>"

section \<open>Actuator layer (actuator.c)\<close>

text \<open>
  \<^verbatim>\<open>edgeplug_actuation_cmd_t\<close>. The field \<^verbatim>\<open>value\<close> is called \<open>value_cmd\<close>; the
  \<^verbatim>\<open>float\<close> is a real number.
\<close>

record edgeplug_actuation_cmd =
  opcua_node :: u16
  modbus_addr :: u16
  gpio_pin :: u8
  gpio_state :: u8
  value_cmd :: real

definition MAX_OPCUA_NODES :: nat where "MAX_OPCUA_NODES = 16"
definition MAX_MODBUS_REGS :: nat where "MAX_MODBUS_REGS = 32"
definition MAX_GPIO_PINS :: nat where "MAX_GPIO_PINS = 8"

text \<open>
  What a write function hands to its transport, at the place where the source says
  ``send'': the OPC-UA request (its 17 header bytes; the four bytes of the float follow and
  are kept as the number), the Modbus RTU frame, and the GPIO pin with its state.
\<close>

datatype transport_write =
    Opcua_write "u8 list" real
  | Modbus_write "u8 list"
  | Gpio_write u8 u8

text \<open>
  The statics of actuator.c: the three configuration structs, the counters, the timer, and
  the list \<open>sent\<close> of the writes handed to the transports so far (the source builds each
  frame and then assumes the send succeeded).
\<close>

record actuator_state =
  opcua_node_ids :: "u16 list"
  opcua_values :: "real list"
  opcua_node_count :: u8
  opcua_connected :: bool
  modbus_register_addresses :: "u16 list"
  modbus_register_values :: "u16 list"
  modbus_register_count :: u8
  modbus_connected :: bool
  modbus_slave_id :: u8
  gpio_pin_numbers :: "u8 list"
  gpio_pin_states :: "u8 list"
  gpio_pin_count :: u8
  gpio_initialized :: bool
  actuation_count :: u32
  total_actuation_time :: u32
  max_actuation_time :: u32
  actuator_clock :: platform_clock
  sent :: "transport_write list"

definition actuator_init :: "actuator_state \<Rightarrow> edgeplug_status \<times> actuator_state" where
  "actuator_init st =
     (EDGEPLUG_OK,
      st\<lparr> opcua_node_ids := replicate MAX_OPCUA_NODES 0,
          opcua_values := replicate MAX_OPCUA_NODES 0,
          opcua_node_count := 0,
          opcua_connected := False,
          modbus_register_addresses := replicate MAX_MODBUS_REGS 0,
          modbus_register_values := replicate MAX_MODBUS_REGS 0,
          modbus_register_count := 0,
          modbus_connected := False,
          modbus_slave_id := 1,
          gpio_pin_numbers := replicate MAX_GPIO_PINS 0,
          gpio_pin_states := replicate MAX_GPIO_PINS 0,
          gpio_pin_count := 0,
          gpio_initialized := True,
          actuation_count := 0,
          total_actuation_time := 0,
          max_actuation_time := 0 \<rparr>)"

text \<open>The statics at program start (all zero), with the software timer and nothing sent.\<close>

definition actuator_start :: actuator_state where
  "actuator_start =
     \<lparr> opcua_node_ids = replicate MAX_OPCUA_NODES 0,
       opcua_values = replicate MAX_OPCUA_NODES 0,
       opcua_node_count = 0,
       opcua_connected = False,
       modbus_register_addresses = replicate MAX_MODBUS_REGS 0,
       modbus_register_values = replicate MAX_MODBUS_REGS 0,
       modbus_register_count = 0,
       modbus_connected = False,
       modbus_slave_id = 0,
       gpio_pin_numbers = replicate MAX_GPIO_PINS 0,
       gpio_pin_states = replicate MAX_GPIO_PINS 0,
       gpio_pin_count = 0,
       gpio_initialized = False,
       actuation_count = 0,
       total_actuation_time = 0,
       max_actuation_time = 0,
       actuator_clock = software_timer,
       sent = [] \<rparr>"

text \<open>
  The ``find or add'' loop of the three write functions: the first index below
  \<open>count\<close> whose entry is the key.
\<close>

definition find_entry :: "'a list \<Rightarrow> u8 \<Rightarrow> 'a \<Rightarrow> nat option" where
  "find_entry keys count k = List.find (\<lambda>i. keys ! i = k) [0..<unat count]"

text \<open>The end of each write function: timing, statistics, and the 10 ms budget.\<close>

definition finish_actuation :: "u32 \<Rightarrow> actuator_state \<Rightarrow> edgeplug_status \<times> actuator_state" where
  "finish_actuation start_time st =
     (let (end_time, c) = clock_read (actuator_clock st);
          actuation_time = end_time - start_time;
          st' = st\<lparr> actuator_clock := c,
                    actuation_count := actuation_count st + 1,
                    total_actuation_time := total_actuation_time st + actuation_time,
                    max_actuation_time :=
                      (if actuation_time > max_actuation_time st then actuation_time
                       else max_actuation_time st) \<rparr>
      in if actuation_time > 10 then (EDGEPLUG_ERROR_ACTUATION, st') else (EDGEPLUG_OK, st'))"

definition opcua_request :: "u16 \<Rightarrow> u8 list" where
  "opcua_request node_id =
     [0x48, 0x45, 0x4C, 0x4C, 0x4F, 0x57, 0x01, 0x00, 0x00, 0x00, 0x00, 0x01, 0x02,
      ucast (drop_bit 8 node_id AND 0xFF), ucast (node_id AND 0xFF), 0x0D, 0x01]"

definition actuator_write_opcua :: "u16 \<Rightarrow> real \<Rightarrow> actuator_state \<Rightarrow> edgeplug_status \<times> actuator_state" where
  "actuator_write_opcua node_id v st =
     (if node_id = 0 then (EDGEPLUG_ERROR_INVALID_PARAM, st)
      else
        (let (start_time, c) = clock_read (actuator_clock st);
             st1 = st\<lparr> actuator_clock := c \<rparr>;
             st2 = (case find_entry (opcua_node_ids st1) (opcua_node_count st1) node_id of
                      Some i \<Rightarrow> st1\<lparr> opcua_values := (opcua_values st1)[i := v] \<rparr>
                    | None \<Rightarrow>
                        if unat (opcua_node_count st1) < MAX_OPCUA_NODES then
                          st1\<lparr> opcua_node_ids := (opcua_node_ids st1)[unat (opcua_node_count st1) := node_id],
                               opcua_values := (opcua_values st1)[unat (opcua_node_count st1) := v],
                               opcua_node_count := opcua_node_count st1 + 1 \<rparr>
                        else st1);
             st3 = st2\<lparr> sent := sent st2 @ [Opcua_write (opcua_request node_id) v],
                        opcua_connected := True \<rparr>
         in finish_actuation start_time st3))"

definition modbus_crc_step :: "u16 \<Rightarrow> u16" where
  "modbus_crc_step crc = (if crc AND 1 = 0 then drop_bit 1 crc else drop_bit 1 crc XOR 0xA001)"

definition modbus_crc16 :: "u8 list \<Rightarrow> u16" where
  "modbus_crc16 frame = foldl (\<lambda>crc b. (modbus_crc_step ^^ 8) (crc XOR ucast b)) 0xFFFF frame"

definition modbus_frame :: "u8 \<Rightarrow> u16 \<Rightarrow> u16 \<Rightarrow> u8 list" where
  "modbus_frame slave address v =
     (let body = [slave, 0x06, ucast (drop_bit 8 address AND 0xFF), ucast (address AND 0xFF),
                  ucast (drop_bit 8 v AND 0xFF), ucast (v AND 0xFF)];
          crc = modbus_crc16 body
      in body @ [ucast (crc AND 0xFF), ucast (drop_bit 8 crc AND 0xFF)])"

definition actuator_write_modbus :: "u16 \<Rightarrow> u16 \<Rightarrow> actuator_state \<Rightarrow> edgeplug_status \<times> actuator_state" where
  "actuator_write_modbus address v st =
     (if address = 0 then (EDGEPLUG_ERROR_INVALID_PARAM, st)
      else
        (let (start_time, c) = clock_read (actuator_clock st);
             st1 = st\<lparr> actuator_clock := c \<rparr>;
             st2 = (case find_entry (modbus_register_addresses st1) (modbus_register_count st1) address of
                      Some i \<Rightarrow> st1\<lparr> modbus_register_values := (modbus_register_values st1)[i := v] \<rparr>
                    | None \<Rightarrow>
                        if unat (modbus_register_count st1) < MAX_MODBUS_REGS then
                          st1\<lparr> modbus_register_addresses :=
                                 (modbus_register_addresses st1)[unat (modbus_register_count st1) := address],
                               modbus_register_values :=
                                 (modbus_register_values st1)[unat (modbus_register_count st1) := v],
                               modbus_register_count := modbus_register_count st1 + 1 \<rparr>
                        else st1);
             st3 = st2\<lparr> sent := sent st2 @ [Modbus_write (modbus_frame (modbus_slave_id st2) address v)],
                        modbus_connected := True \<rparr>
         in finish_actuation start_time st3))"

definition actuator_write_gpio :: "u8 \<Rightarrow> u8 \<Rightarrow> actuator_state \<Rightarrow> edgeplug_status \<times> actuator_state" where
  "actuator_write_gpio pin state st =
     (if unat pin \<ge> MAX_GPIO_PINS \<or> state > 1 then (EDGEPLUG_ERROR_INVALID_PARAM, st)
      else if \<not> gpio_initialized st then (EDGEPLUG_ERROR_ACTUATION, st)
      else
        (let (start_time, c) = clock_read (actuator_clock st);
             st1 = st\<lparr> actuator_clock := c \<rparr>;
             st2 = (case find_entry (gpio_pin_numbers st1) (gpio_pin_count st1) pin of
                      Some i \<Rightarrow> st1\<lparr> gpio_pin_states := (gpio_pin_states st1)[i := state] \<rparr>
                    | None \<Rightarrow>
                        if unat (gpio_pin_count st1) < MAX_GPIO_PINS then
                          st1\<lparr> gpio_pin_numbers := (gpio_pin_numbers st1)[unat (gpio_pin_count st1) := pin],
                               gpio_pin_states := (gpio_pin_states st1)[unat (gpio_pin_count st1) := state],
                               gpio_pin_count := gpio_pin_count st1 + 1 \<rparr>
                        else st1);
             st3 = st2\<lparr> sent := sent st2 @ [Gpio_write pin state] \<rparr>
         in finish_actuation start_time st3))"

text \<open>
  The conversion \<^verbatim>\<open>(uint16_t)cmd->value\<close>: the fraction is dropped. C defines the
  conversion only when the value without its fraction fits the type, that is for values
  above -1 and below 65536; for every other value the result is \<open>None\<close>, undefined.
\<close>

definition float_to_u16 :: "real \<Rightarrow> u16 option" where
  "float_to_u16 v =
     (if -1 < v \<and> v < 65536 then Some (if v < 0 then 0 else word_of_int \<lfloor>v\<rfloor>) else None)"

text \<open>
  \<^verbatim>\<open>actuator_execute_command\<close>. The conversion of the value is part of the call of
  \<^verbatim>\<open>actuator_write_modbus\<close>; where it is undefined, so is the command (\<open>None\<close>).
\<close>

definition actuator_execute_command ::
  "edgeplug_actuation_cmd option \<Rightarrow> actuator_state \<Rightarrow> (edgeplug_status \<times> actuator_state) option" where
  "actuator_execute_command cmd_ptr st =
     (case cmd_ptr of
        None \<Rightarrow> Some (EDGEPLUG_ERROR_INVALID_PARAM, st)
      | Some cmd \<Rightarrow>
          (let (status1, st1) =
                 (if opcua_node cmd = 0 then (EDGEPLUG_OK, st)
                  else actuator_write_opcua (opcua_node cmd) (value_cmd cmd) st)
           in if status1 = EDGEPLUG_OK then
                (case (if modbus_addr cmd = 0 then Some (EDGEPLUG_OK, st1)
                       else map_option (\<lambda>v. actuator_write_modbus (modbus_addr cmd) v st1)
                              (float_to_u16 (value_cmd cmd))) of
                   None \<Rightarrow> None
                 | Some (status2, st2) \<Rightarrow>
                     if status2 = EDGEPLUG_OK then
                       (let (status3, st3) =
                              (if unat (gpio_pin cmd) < MAX_GPIO_PINS
                               then actuator_write_gpio (gpio_pin cmd) (gpio_state cmd) st2
                               else (EDGEPLUG_OK, st2))
                        in if status3 = EDGEPLUG_OK then Some (EDGEPLUG_OK, st3)
                           else Some (status3, st3))
                     else Some (status2, st2))
              else Some (status1, st1)))"

text \<open>
  The command \<^verbatim>\<open>edgeplug_process_sensors\<close> hands back when it has nothing to actuate
  (``Window not full yet, return no actuation'' and ``No output, set safe defaults''):
  \<^verbatim>\<open>memset(actuation_cmd, 0, sizeof(edgeplug_actuation_cmd_t))\<close>.
\<close>

definition no_actuation_cmd :: edgeplug_actuation_cmd where
  "no_actuation_cmd =
     \<lparr> opcua_node = 0, modbus_addr = 0, gpio_pin = 0, gpio_state = 0, value_cmd = 0 \<rparr>"

section \<open>Agent loader (agent\_loader.c)\<close>




text \<open>
  The CBOR parser \<^verbatim>\<open>cbor_parser_t\<close> is its data, whose length is \<^verbatim>\<open>size\<close>, and its
  offset. The offset is a \<^verbatim>\<open>size_t\<close>, 32 bits wide on the Cortex-M4 the runtime is
  written for; adding a 64-bit value to it keeps the low 32 bits. \<open>None\<close> is the return
  value \<^verbatim>\<open>false\<close>.
\<close>

definition cbor_read_byte :: "u8 list \<Rightarrow> u32 \<Rightarrow> (u8 \<times> u32) option" where
  "cbor_read_byte d off = (if unat off \<ge> length d then None else Some (d ! unat off, off + 1))"

definition cbor_parse_header :: "u8 list \<Rightarrow> u32 \<Rightarrow> (u8 \<times> u64 \<times> u32) option" where
  "cbor_parse_header d off =
     (case cbor_read_byte d off of
        None \<Rightarrow> None
      | Some (byte, off1) \<Rightarrow>
          (let major_type = drop_bit 5 byte AND 0x07;
               additional_info = byte AND 0x1F
           in if additional_info \<le> 0x17 then Some (major_type, ucast additional_info, off1)
              else if additional_info = 0x18 then
                (case cbor_read_byte d off1 of
                   None \<Rightarrow> None
                 | Some (b, off2) \<Rightarrow> Some (major_type, ucast b, off2))
              else if additional_info = 0x19 then
                (if unat (off1 + 1) \<ge> length d then None
                 else Some (major_type,
                            push_bit 8 (ucast (d ! unat off1)) OR ucast (d ! unat (off1 + 1)),
                            off1 + 2))
              else if additional_info = 0x1A then
                (if unat (off1 + 3) \<ge> length d then None
                 else Some (major_type,
                            push_bit 24 (ucast (d ! unat off1)) OR
                            push_bit 16 (ucast (d ! unat (off1 + 1))) OR
                            push_bit 8 (ucast (d ! unat (off1 + 2))) OR
                            ucast (d ! unat (off1 + 3)),
                            off1 + 4))
              else None))"











text \<open>
  Example data: an envelope with the keys \<open>model\<close>, \<open>prep\<close> and \<open>act\<close>, each with an
  empty byte string, its manifest (the hash is the one \<^verbatim>\<open>calculate_hash\<close> computes, the
  signature has no zero byte), and an envelope whose only key is \<open>x\<close>.
\<close>

definition envelope_model_prep_act :: "u8 list" where
  "envelope_model_prep_act =
     [0xA3, 0x65, 0x6D, 0x6F, 0x64, 0x65, 0x6C, 0x40,
            0x64, 0x70, 0x72, 0x65, 0x70, 0x40,
            0x63, 0x61, 0x63, 0x74, 0x40]"



text \<open>
  The envelope as the specification describes it: a map (major type 5) whose keys are text
  strings (major type 3) and whose values are byte strings (major type 2), each inside the
  buffer. \<open>envelope_keys\<close> reads \<open>n\<close> entries and gives the keys;
  \<open>envelope_has_mandatory_keys\<close> says that \<open>model\<close>, \<open>prep\<close> and \<open>act\<close> are
  among them. The loader does not use either.
\<close>

fun envelope_keys :: "u8 list \<Rightarrow> nat \<Rightarrow> u32 \<Rightarrow> u8 list list option" where
  "envelope_keys d 0 off = Some []"
| "envelope_keys d (Suc n) off =
     (case cbor_parse_header d off of
        None \<Rightarrow> None
      | Some (key_type, key_len, off1) \<Rightarrow>
          if key_type = 3 \<and> unat off1 + unat key_len \<le> length d then
            (case cbor_parse_header d (off1 + ucast key_len) of
               None \<Rightarrow> None
             | Some (val_type, val_len, off2) \<Rightarrow>
                 if val_type = 2 \<and> unat off2 + unat val_len \<le> length d then
                   map_option ((#) (take (unat key_len) (drop (unat off1) d)))
                     (envelope_keys d n (off2 + ucast val_len))
                 else None)
          else None)"

definition envelope_has_mandatory_keys :: "u8 list \<Rightarrow> bool" where
  "envelope_has_mandatory_keys d =
     (case cbor_parse_header d 0 of
        None \<Rightarrow> False
      | Some (major_type, n, off) \<Rightarrow>
          if major_type = 5 then
            (case envelope_keys d (unat n) off of
               None \<Rightarrow> False
             | Some keys \<Rightarrow>
                 list_all (\<lambda>k. k \<in> set keys)
                   [[0x6D, 0x6F, 0x64, 0x65, 0x6C], [0x70, 0x72, 0x65, 0x70], [0x61, 0x63, 0x74]])
          else False)"

section \<open>Inference (infer.c)\<close>

text \<open>
  An \<^verbatim>\<open>int8_t\<close> is a byte read as two's complement (\<open>sint\<close>).
\<close>

type_synonym s8 = "8 word"

definition INFERENCE_BUFFER_SIZE :: nat where
  "INFERENCE_BUFFER_SIZE = 1024"

definition MAX_MODEL_SIZE :: nat where
  "MAX_MODEL_SIZE = 8192"

text \<open>
  The statics of infer.c, with the timer of \<^verbatim>\<open>get_system_time_ms\<close>.
\<close>

record infer_state =
  inference_buffer :: "s8 list"
  model_buffer :: "u8 list"
  model_size :: nat
  model_loaded :: bool
  inference_count :: u32
  total_inference_time :: u32
  max_inference_time :: u32
  input_scale :: real
  output_scale :: real
  input_zero_point :: s8
  output_zero_point :: s8
  infer_clock :: platform_clock

text \<open>
  The statics at program start, over a timer \<open>c\<close>.
\<close>

definition infer_start :: "platform_clock \<Rightarrow> infer_state" where
  "infer_start c =
     \<lparr> inference_buffer = replicate INFERENCE_BUFFER_SIZE 0,
       model_buffer = replicate MAX_MODEL_SIZE 0,
       model_size = 0,
       model_loaded = False,
       inference_count = 0,
       total_inference_time = 0,
       max_inference_time = 0,
       input_scale = 1 / 64,
       output_scale = 64,
       input_zero_point = 0,
       output_zero_point = 0,
       infer_clock = c \<rparr>"

definition infer_init :: "infer_state \<Rightarrow> edgeplug_status \<times> infer_state" where
  "infer_init st =
     (EDGEPLUG_OK,
      st\<lparr> inference_buffer := replicate INFERENCE_BUFFER_SIZE 0,
          model_buffer := replicate MAX_MODEL_SIZE 0,
          model_size := 0,
          model_loaded := False,
          inference_count := 0,
          total_inference_time := 0,
          max_inference_time := 0 \<rparr>)"

definition infer_load_model :: "u8 list option \<Rightarrow> infer_state \<Rightarrow> edgeplug_status \<times> infer_state" where
  "infer_load_model model_data st =
     (case model_data of
        None \<Rightarrow> (EDGEPLUG_ERROR_INVALID_PARAM, st)
      | Some d \<Rightarrow>
          if length d = 0 then (EDGEPLUG_ERROR_INVALID_PARAM, st)
          else if length d > MAX_MODEL_SIZE then (EDGEPLUG_ERROR_MEMORY, st)
          else (EDGEPLUG_OK,
                st\<lparr> model_buffer := d @ drop (length d) (model_buffer st),
                    model_size := length d,
                    model_loaded := True \<rparr>))"

text \<open>
  Reads of the model buffer and of the inference buffer. The source casts the model
  buffer to its header and layer structs and indexes both buffers freely; a read or write
  outside a buffer is undefined in C and is the result \<open>None\<close> here, which every caller
  passes on. A 32-bit field is read little-endian, as on the Cortex-M4.
\<close>

definition read_u32 :: "u8 list \<Rightarrow> nat \<Rightarrow> u32 option" where
  "read_u32 buf off =
     (if off + 4 \<le> length buf then
        Some (ucast (buf ! off) OR push_bit 8 (ucast (buf ! (off + 1))) OR
              push_bit 16 (ucast (buf ! (off + 2))) OR push_bit 24 (ucast (buf ! (off + 3))))
      else None)"

definition read_s8 :: "u8 list \<Rightarrow> nat \<Rightarrow> int option" where
  "read_s8 buf off = (if off < length buf then Some (sint (buf ! off)) else None)"

definition write_s8 :: "s8 list \<Rightarrow> nat \<Rightarrow> int \<Rightarrow> s8 list option" where
  "write_s8 buf off v = (if off < length buf then Some (buf[off := word_of_int v]) else None)"

text \<open>
  The accumulator is an \<^verbatim>\<open>int32_t\<close> (kept as an integer, wrapped to 32 bits after each
  addition); \<^verbatim>\<open>acc / 64\<close> is C's division, which truncates towards zero.
\<close>

definition wrap32 :: "int \<Rightarrow> int" where
  "wrap32 x = sint (word_of_int x :: u32)"

definition c_div :: "int \<Rightarrow> int \<Rightarrow> int" where
  "c_div a b = (if (a < 0) = (b < 0) then \<bar>a\<bar> div \<bar>b\<bar> else - (\<bar>a\<bar> div \<bar>b\<bar>))"

definition clamp_s8 :: "int \<Rightarrow> int" where
  "clamp_s8 acc = (let a = (if acc > 127 then 127 else acc) in if a < -128 then -128 else a)"

text \<open>
  The inner loop of a dense layer: \<^verbatim>\<open>acc += layer_input[in_idx] * weights[in_idx * output_size + out_idx]\<close>,
  the index of the weight computed on 32-bit unsigned values.
\<close>

fun dense_acc :: "s8 list \<Rightarrow> u8 list \<Rightarrow> nat \<Rightarrow> nat \<Rightarrow> u32 \<Rightarrow> u32 \<Rightarrow> nat list \<Rightarrow> int \<Rightarrow> int option" where
  "dense_acc buf mb in_off w_off l_out out_idx [] acc = Some acc"
| "dense_acc buf mb in_off w_off l_out out_idx (in_idx # rest) acc =
     (case (read_s8 buf (in_off + in_idx),
            read_s8 mb (w_off + unat (of_nat in_idx * l_out + out_idx))) of
        (Some a, Some w) \<Rightarrow> dense_acc buf mb in_off w_off l_out out_idx rest (wrap32 (acc + a * w))
      | _ \<Rightarrow> None)"

text \<open>
  The outer loop of a dense layer, one output at a time: bias, accumulation, ReLU when
  \<^verbatim>\<open>activation_type\<close> is 1, division by 64, clamp, store. The input and the output
  region lie in the same buffer, so the buffer is threaded through.
\<close>

fun dense_rows ::
  "u8 list \<Rightarrow> nat \<Rightarrow> nat \<Rightarrow> nat \<Rightarrow> nat \<Rightarrow> u32 \<Rightarrow> u32 \<Rightarrow> u32 \<Rightarrow> nat list \<Rightarrow> s8 list \<Rightarrow> s8 list option" where
  "dense_rows mb in_off out_off w_off b_off l_in l_out act [] buf = Some buf"
| "dense_rows mb in_off out_off w_off b_off l_in l_out act (out_idx # rest) buf =
     (case read_u32 mb (b_off + 4 * out_idx) of
        None \<Rightarrow> None
      | Some bias \<Rightarrow>
          (case dense_acc buf mb in_off w_off l_out (of_nat out_idx) [0..<unat l_in] (sint bias) of
             None \<Rightarrow> None
           | Some acc \<Rightarrow>
               (let acc1 = (if act = 1 \<and> acc < 0 then 0 else acc);
                    acc2 = clamp_s8 (c_div acc1 64)
                in case write_s8 buf (out_off + out_idx) acc2 of
                     None \<Rightarrow> None
                   | Some buf' \<Rightarrow> dense_rows mb in_off out_off w_off b_off l_in l_out act rest buf')))"

text \<open>
  An activation layer: ReLU (1), the step that stands for the sigmoid (2), or a copy.
\<close>

fun activation_rows :: "nat \<Rightarrow> nat \<Rightarrow> u32 \<Rightarrow> nat list \<Rightarrow> s8 list \<Rightarrow> s8 list option" where
  "activation_rows in_off out_off act [] buf = Some buf"
| "activation_rows in_off out_off act (i # rest) buf =
     (case read_s8 buf (in_off + i) of
        None \<Rightarrow> None
      | Some v \<Rightarrow>
          (let v1 = (if act = 1 then (if v < 0 then 0 else v)
                     else if act = 2 then (if v > 0 then 127 else -128)
                     else v)
           in case write_s8 buf (out_off + i) v1 of
                None \<Rightarrow> None
              | Some buf' \<Rightarrow> activation_rows in_off out_off act rest buf'))"

text \<open>
  Field \<open>k\<close> of layer descriptor \<open>i\<close>: the descriptors follow the 32-byte header and
  take 36 bytes each. The fields are \<^verbatim>\<open>type\<close> (0), \<^verbatim>\<open>input_size\<close> (1),
  \<^verbatim>\<open>output_size\<close> (2), \<^verbatim>\<open>weights_offset\<close> (3), \<^verbatim>\<open>bias_offset\<close> (4) and
  \<^verbatim>\<open>activation_type\<close> (5).
\<close>

definition layer_field :: "u8 list \<Rightarrow> nat \<Rightarrow> nat \<Rightarrow> u32 option" where
  "layer_field mb i k = read_u32 mb (32 + 36 * i + 4 * k)"

text \<open>
  The loop over the layers: \<^verbatim>\<open>CMSIS_NN_LAYER_DENSE\<close> is 2,
  \<^verbatim>\<open>CMSIS_NN_LAYER_ACTIVATION\<close> is 3, every other type returns
  \<^verbatim>\<open>EDGEPLUG_ERROR_INFERENCE\<close>. \<open>in_off\<close> and \<open>out_off\<close> are where
  \<^verbatim>\<open>layer_input\<close> and \<^verbatim>\<open>layer_output\<close> point in the inference buffer; they are
  swapped after each layer.
\<close>

fun run_layers :: "u8 list \<Rightarrow> nat list \<Rightarrow> s8 list \<Rightarrow> nat \<Rightarrow> nat \<Rightarrow> (edgeplug_status \<times> s8 list \<times> nat) option" where
  "run_layers mb [] buf in_off out_off = Some (EDGEPLUG_OK, buf, in_off)"
| "run_layers mb (i # rest) buf in_off out_off =
     (case layer_field mb i 0 of
        None \<Rightarrow> None
      | Some ty \<Rightarrow>
          if ty = 2 then
            (case (layer_field mb i 1, layer_field mb i 2, layer_field mb i 3,
                   layer_field mb i 4, layer_field mb i 5) of
               (Some l_in, Some l_out, Some w_off, Some b_off, Some act) \<Rightarrow>
                 (case dense_rows mb in_off out_off (unat w_off) (unat b_off) l_in l_out act
                         [0..<unat l_out] buf of
                    None \<Rightarrow> None
                  | Some buf' \<Rightarrow> run_layers mb rest buf' out_off in_off)
             | _ \<Rightarrow> None)
          else if ty = 3 then
            (case (layer_field mb i 1, layer_field mb i 5) of
               (Some l_in, Some act) \<Rightarrow>
                 (case activation_rows in_off out_off act [0..<unat l_in] buf of
                    None \<Rightarrow> None
                  | Some buf' \<Rightarrow> run_layers mb rest buf' out_off in_off)
             | _ \<Rightarrow> None)
          else Some (EDGEPLUG_ERROR_INFERENCE, buf, in_off))"

text \<open>
  \<^verbatim>\<open>cmsis_nn_inference\<close>. Its input pointer is the inference buffer itself, which
  \<^verbatim>\<open>infer_int8\<close> has filled; \<open>output\<close> is the caller's buffer and \<open>output_size\<close> the
  caller's variable. The result is the status, the two as the call leaves them, and the
  state.
\<close>

definition cmsis_nn_inference ::
  "nat \<Rightarrow> s8 list \<Rightarrow> nat \<Rightarrow> infer_state \<Rightarrow> (edgeplug_status \<times> s8 list \<times> nat \<times> infer_state) option" where
  "cmsis_nn_inference input_size output output_size st =
     (if \<not> model_loaded st then Some (EDGEPLUG_ERROR_INVALID_PARAM, output, output_size, st)
      else
        (case (read_u32 (model_buffer st) 0, read_u32 (model_buffer st) 8,
               read_u32 (model_buffer st) 12, read_u32 (model_buffer st) 16) of
           (Some mgc, Some h_in, Some h_out, Some layer_count) \<Rightarrow>
             if mgc \<noteq> 0x4E4E5343 then Some (EDGEPLUG_ERROR_INFERENCE, output, output_size, st)
             else if input_size \<noteq> unat h_in then Some (EDGEPLUG_ERROR_INFERENCE, output, output_size, st)
             else
               (case run_layers (model_buffer st) [0..<unat layer_count] (inference_buffer st)
                       0 (unat h_in) of
                  None \<Rightarrow> None
                | Some (status, buf, in_off) \<Rightarrow>
                    if status \<noteq> EDGEPLUG_OK
                    then Some (status, output, output_size, st\<lparr> inference_buffer := buf \<rparr>)
                    else if in_off + unat h_out \<le> length buf \<and> unat h_out \<le> length output
                    then Some (EDGEPLUG_OK,
                               take (unat h_out) (drop in_off buf) @ drop (unat h_out) output,
                               unat h_out, st\<lparr> inference_buffer := buf \<rparr>)
                    else None)
         | _ \<Rightarrow> None))"

text \<open>
  \<^verbatim>\<open>infer_int8\<close>. The three pointers are options; \<^verbatim>\<open>input_size\<close> is the length of
  the input.
\<close>

definition infer_int8 ::
  "s8 list option \<Rightarrow> s8 list option \<Rightarrow> nat option \<Rightarrow> infer_state
     \<Rightarrow> (edgeplug_status \<times> s8 list option \<times> nat option \<times> infer_state) option" where
  "infer_int8 input_data output_data output_size st =
     (case (input_data, output_data, output_size) of
        (Some inp, Some out, Some osz) \<Rightarrow>
          if \<not> model_loaded st then Some (EDGEPLUG_ERROR_INVALID_PARAM, output_data, output_size, st)
          else if length inp > INFERENCE_BUFFER_SIZE
            then Some (EDGEPLUG_ERROR_MEMORY, output_data, output_size, st)
          else
            (let (start_time, c1) = clock_read (infer_clock st);
                 st1 = st\<lparr> infer_clock := c1,
                          inference_buffer := inp @ drop (length inp) (inference_buffer st) \<rparr>
             in case cmsis_nn_inference (length inp) out osz st1 of
                  None \<Rightarrow> None
                | Some (status, out', osz', st2) \<Rightarrow>
                    (let (end_time, c2) = clock_read (infer_clock st2);
                         inference_time = end_time - start_time;
                         st3 = st2\<lparr> infer_clock := c2,
                                   inference_count := inference_count st2 + 1,
                                   total_inference_time := total_inference_time st2 + inference_time,
                                   max_inference_time :=
                                     (if inference_time > max_inference_time st2 then inference_time
                                      else max_inference_time st2) \<rparr>
                     in if inference_time > 1
                        then Some (EDGEPLUG_ERROR_INFERENCE, Some out', Some osz', st3)
                        else Some (status, Some out', Some osz', st3)))
      | _ \<Rightarrow> Some (EDGEPLUG_ERROR_INVALID_PARAM, output_data, output_size, st))"

text \<open>
  \<^verbatim>\<open>infer_get_stats\<close> with three non-NULL pointers: count, average time, maximum time.
\<close>

definition infer_get_stats :: "infer_state \<Rightarrow> u32 \<times> u32 \<times> u32" where
  "infer_get_stats st =
     (inference_count st,
      (if inference_count st > 0 then total_inference_time st div inference_count st else 0),
      max_inference_time st)"

text \<open>
  Example data: a model of one input, one output and no layer (its output is its input),
  and a timer that advances 5 ms from one read to the next.
\<close>

definition identity_model :: "u8 list" where
  "identity_model =
     [0x43, 0x53, 0x4E, 0x4E,  0x01, 0, 0, 0,  0x01, 0, 0, 0,  0x01, 0, 0, 0,
      0, 0, 0, 0,  0, 0, 0, 0,  0, 0, 0, 0,  0, 0, 0, 0]"

definition slow_clock :: platform_clock where
  "slow_clock = \<lparr> readings = (\<lambda>n. 5 * of_nat n), reads = 0 \<rparr>"


section \<open>Properties\<close>

subsection \<open>Pre-processing: window fill and filter\<close>

lemma unat_succ_mod:
  fixes i w :: u32
  assumes "i < w"
  shows "unat ((i + 1) mod w) = (unat i + 1) mod unat w"
proof -
  have "unat i < unat w" using assms by (simp add: word_less_nat_alt)
  moreover have "unat w < 2 ^ 32" using unsigned_less [of w] by simp
  ultimately have "unat i + 1 < 2 ^ 32" by linarith
  then have "unat (i + 1) = unat i + 1"
    by (simp add: unat_word_ariths)
  then show ?thesis by (simp add: unat_mod)
qed

lemma add_sample_fields:
  "window_size (snd (preprocess_add_sample (Some s) t)) = window_size t"
  "window_index (snd (preprocess_add_sample (Some s) t)) = (window_index t + 1) mod window_size t"
  "window_full (snd (preprocess_add_sample (Some s) t)) =
     (if (window_index t + 1) mod window_size t = 0 then True else window_full t)"
  by (simp_all add: preprocess_add_sample_def Let_def)

lemma add_samples_snoc:
  "add_samples st (ss @ [s]) = snd (preprocess_add_sample (Some s) (add_samples st ss))"
  by (simp add: add_samples_def)

lemma add_samples_inv:
  assumes "window_index st = 0" "\<not> window_full st" "window_size st = W" "0 < W"
  shows "window_size (add_samples st ss) = W \<and>
         unat (window_index (add_samples st ss)) = length ss mod unat W \<and>
         window_full (add_samples st ss) = (unat W \<le> length ss)"
proof (induction ss rule: rev_induct)
  case Nil
  have "0 < unat W" using assms(4) by (simp add: word_less_nat_alt)
  then show ?case using assms by (simp add: add_samples_def)
next
  case (snoc s ss)
  let ?t = "add_samples st ss"
  have Wpos: "0 < unat W" using assms(4) by (simp add: word_less_nat_alt)
  have sz: "window_size ?t = W" and ix: "unat (window_index ?t) = length ss mod unat W"
    and fl: "window_full ?t = (unat W \<le> length ss)" using snoc by simp_all
  have "unat (window_index ?t) < unat W" using ix Wpos by simp
  then have lt: "window_index ?t < W" by (simp add: word_less_nat_alt)
  have ix': "unat ((window_index ?t + 1) mod W) = (length ss + 1) mod unat W"
    using unat_succ_mod [OF lt] ix by (simp add: mod_Suc_eq)
  have z: "((window_index ?t + 1) mod W = 0) = ((length ss + 1) mod unat W = 0)"
    using ix' by (metis unat_eq_0)
  have full: "((length ss + 1) mod unat W = 0 \<or> unat W \<le> length ss) = (unat W \<le> length ss + 1)"
  proof (cases "(length ss + 1) mod unat W = 0")
    case True
    then have "unat W dvd length ss + 1" by (simp add: dvd_eq_mod_eq_0)
    then have "unat W \<le> length ss + 1" by (rule dvd_imp_le) simp
    with True show ?thesis by simp
  next
    case False
    then have "length ss + 1 \<noteq> unat W" by auto
    with False show ?thesis by auto
  qed
  have a: "window_size (add_samples st (ss @ [s])) = W"
    using sz by (simp add: add_samples_snoc add_sample_fields)
  have b: "unat (window_index (add_samples st (ss @ [s]))) = length (ss @ [s]) mod unat W"
    using sz ix' by (simp add: add_samples_snoc add_sample_fields)
  have "window_full (add_samples st (ss @ [s])) =
          ((window_index ?t + 1) mod W = 0 \<or> window_full ?t)"
    using sz by (simp add: add_samples_snoc add_sample_fields)
  also have "\<dots> = ((length ss + 1) mod unat W = 0 \<or> unat W \<le> length ss)"
    using z fl by simp
  also have "\<dots> = (unat W \<le> length (ss @ [s]))"
    using full by simp
  finally show ?case using a b by simp
qed


lemma length_iir_outputs: "length (iir_outputs a p vs) = length vs"
  by (induction vs arbitrary: p) simp_all

lemma iir_outputs_snoc:
  "iir_outputs a p (vs @ [v]) =
     iir_outputs a p vs @ [a * v + (1 - a) * last (p # iir_outputs a p vs)]"
  by (induction vs arbitrary: p) simp_all

lemma add_sample_filter_fields:
  "filter_alpha (snd (preprocess_add_sample (Some s) t)) = filter_alpha t"
  "filtered_voltage (snd (preprocess_add_sample (Some s) t)) =
     filter_alpha t * voltage s + (1 - filter_alpha t) * filtered_voltage t"
  "window_buffer (snd (preprocess_add_sample (Some s) t)) =
     (window_buffer t)[unat (window_index t) :=
        filter_alpha t * voltage s + (1 - filter_alpha t) * filtered_voltage t]"
  by (simp_all add: preprocess_add_sample_def Let_def)

lemma add_samples_filter:
  "filter_alpha (add_samples st ss) = filter_alpha st \<and>
   length (window_buffer (add_samples st ss)) = length (window_buffer st) \<and>
   filtered_voltage (add_samples st ss) =
     last (filtered_voltage st # iir_outputs (filter_alpha st) (filtered_voltage st) (map voltage ss))"
proof (induction ss rule: rev_induct)
  case Nil
  show ?case by (simp add: add_samples_def)
next
  case (snoc s ss)
  then show ?case
    by (simp add: add_samples_snoc add_sample_filter_fields iir_outputs_snoc)
qed

lemma mod_neq_of_close:
  fixes k n w :: nat
  assumes "k < n" "n - k < w"
  shows "k mod w \<noteq> n mod w"
proof
  assume "k mod w = n mod w"
  then have "w dvd n - k" using assms(1)
    by (metis mod_eq_dvd_iff_nat less_imp_le_nat)
  then have "w \<le> n - k" using assms(1) by (intro dvd_imp_le) simp_all
  with assms(2) show False by simp
qed

lemma add_samples_ring:
  assumes "window_index st = 0" "\<not> window_full st" "window_size st = W" "0 < W"
    and "unat W \<le> length (window_buffer st)"
    and "k < length ss" "length ss - k \<le> unat W"
  shows "window_buffer (add_samples st ss) ! (k mod unat W) =
         iir_outputs (filter_alpha st) (filtered_voltage st) (map voltage ss) ! k"
  using assms(6,7)
proof (induction ss rule: rev_induct)
  case Nil
  then show ?case by simp
next
  case (snoc s ss)
  let ?t = "add_samples st ss"
  let ?n = "length ss"
  have Wpos: "0 < unat W" using assms(4) by (simp add: word_less_nat_alt)
  have inv: "unat (window_index ?t) = ?n mod unat W"
    using add_samples_inv [OF assms(1-4), of ss] by simp
  have flt: "filter_alpha ?t = filter_alpha st"
    and len: "length (window_buffer ?t) = length (window_buffer st)"
    and fv: "filtered_voltage ?t =
      last (filtered_voltage st # iir_outputs (filter_alpha st) (filtered_voltage st) (map voltage ss))"
    using add_samples_filter [of st ss] by simp_all
  have inb: "?n mod unat W < length (window_buffer ?t)"
    using len assms(5) Wpos by (metis mod_less_divisor order_less_le_trans)
  show ?case
  proof (cases "k = ?n")
    case True
    then show ?thesis
      using inv flt fv inb
      by (simp add: add_samples_snoc add_sample_filter_fields iir_outputs_snoc
          nth_append length_iir_outputs)
  next
    case False
    then have kn: "k < ?n" using snoc.prems(1) by simp
    then have close: "?n - k < unat W" using snoc.prems(2) by simp
    have ne: "k mod unat W \<noteq> ?n mod unat W" by (rule mod_neq_of_close [OF kn close])
    have ih: "window_buffer ?t ! (k mod unat W) =
         iir_outputs (filter_alpha st) (filtered_voltage st) (map voltage ss) ! k"
      using snoc.IH kn close by simp
    show ?thesis
      using inv ne ih kn
      by (simp add: add_samples_snoc add_sample_filter_fields iir_outputs_snoc
          nth_append length_iir_outputs)
  qed
qed


lemma preprocess_init_fresh:
  assumes "1 \<le> W" "W \<le> 256"
  shows "window_index (snd (preprocess_init W st0)) = 0"
    "\<not> window_full (snd (preprocess_init W st0))"
    "window_size (snd (preprocess_init W st0)) = W"
    "length (window_buffer (snd (preprocess_init W st0))) = WINDOW_BUFFER_SIZE"
    "filter_alpha (snd (preprocess_init W st0)) = filter_alpha st0"
    "filtered_voltage (snd (preprocess_init W st0)) = filtered_voltage st0"
proof -
  have "W \<noteq> 0" using assms(1) by auto
  moreover have "\<not> W > MAX_WINDOW_SIZE" using assms(2) by (simp add: MAX_WINDOW_SIZE_def)
  ultimately have "preprocess_init W st0 =
    (EDGEPLUG_OK, st0\<lparr> window_size := W, window_index := 0, window_full := False,
                window_buffer := replicate WINDOW_BUFFER_SIZE 0 \<rparr>)"
    by (simp add: preprocess_init_def)
  then show "window_index (snd (preprocess_init W st0)) = 0"
    "\<not> window_full (snd (preprocess_init W st0))"
    "window_size (snd (preprocess_init W st0)) = W"
    "length (window_buffer (snd (preprocess_init W st0))) = WINDOW_BUFFER_SIZE"
    "filter_alpha (snd (preprocess_init W st0)) = filter_alpha st0"
    "filtered_voltage (snd (preprocess_init W st0)) = filtered_voltage st0"
    by simp_all
qed

lemma window_size_bounds:
  fixes W :: u32
  assumes "1 \<le> W" "W \<le> 256"
  shows "0 < W" "unat W \<le> WINDOW_BUFFER_SIZE"
proof -
  show "0 < W" using assms(1) by (simp add: word_less_nat_alt word_le_nat_alt)
  have "unat W \<le> unat (256 :: u32)" using assms(2) by (simp add: word_le_nat_alt)
  then show "unat W \<le> WINDOW_BUFFER_SIZE" by (simp add: WINDOW_BUFFER_SIZE_def)
qed

text \<open>
  Claim C8. For a window size \<open>W\<close> with \<open>1 \<le> W \<le> 256\<close>, after
  \<^verbatim>\<open>preprocess_init\<close> or \<^verbatim>\<open>preprocess_reset\<close> the window is ready exactly
  when at least \<open>W\<close> samples have been inserted: not ready while fewer than \<open>W\<close>
  were added, ready right after the \<open>W\<close>-th, and ready after every later insertion.
\<close>

theorem window_ready_iff_W_samples:
  assumes "1 \<le> W" "W \<le> 256"
    and "st = snd (preprocess_init W st0) \<or> (st = snd (preprocess_reset st1) \<and> window_size st1 = W)"
  shows "preprocess_is_window_ready (add_samples st ss) = (unat W \<le> length ss)"
proof -
  have fresh: "window_index st = 0 \<and> \<not> window_full st \<and> window_size st = W"
    using assms(3) preprocess_init_fresh(1-3) [OF assms(1,2), of st0]
    by (auto simp: preprocess_reset_def)
  then show ?thesis
    using add_samples_inv [of st W ss] window_size_bounds(1) [OF assms(1,2)]
    by (simp add: preprocess_is_window_ready_def)
qed

text \<open>With \<open>W = 2\<close>: not ready after one sample, ready after two and after three.\<close>

theorem window_ready_iff_W_samples_witness:
  "\<not> preprocess_is_window_ready
       (add_samples (snd (preprocess_init 2 preprocess_start))
          [\<lparr>voltage = 100, current = 1, timestamp = 0, quality = 100\<rparr>]) \<and>
   preprocess_is_window_ready
       (add_samples (snd (preprocess_init 2 preprocess_start))
          [\<lparr>voltage = 100, current = 1, timestamp = 0, quality = 100\<rparr>,
           \<lparr>voltage = 101, current = 1, timestamp = 1, quality = 100\<rparr>]) \<and>
   preprocess_is_window_ready
       (add_samples (snd (preprocess_init 2 preprocess_start))
          [\<lparr>voltage = 100, current = 1, timestamp = 0, quality = 100\<rparr>,
           \<lparr>voltage = 101, current = 1, timestamp = 1, quality = 100\<rparr>,
           \<lparr>voltage = 102, current = 1, timestamp = 2, quality = 100\<rparr>])"
proof -
  have h1: "(1::u32) \<le> 2" and h2: "(2::u32) \<le> 256" by simp_all
  have h3: "snd (preprocess_init 2 preprocess_start) = snd (preprocess_init 2 preprocess_start) \<or>
            (snd (preprocess_init 2 preprocess_start) = snd (preprocess_reset preprocess_start) \<and>
             window_size preprocess_start = 2)" by simp
  show ?thesis
    using window_ready_iff_W_samples [OF h1 h2 h3] by simp
qed

text \<open>
  Claim C7, as stated, fails: the previous filter output is 0 when the program starts and
  is not taken from the first sample. With \<open>\<alpha> = 1/2\<close> and a first voltage of 2 the
  first window value is 1, not 2.
\<close>

theorem first_window_value_counterexample:
  "window_buffer
     (add_samples (snd (preprocess_init 4 (snd (preprocess_set_filter (1 / 2) preprocess_start))))
        [\<lparr>voltage = 2, current = 0, timestamp = 0, quality = 100\<rparr>]) ! 0
   \<noteq> voltage \<lparr>voltage = 2, current = 0, timestamp = 0, quality = 100\<rparr>"
  by (simp add: add_samples_def preprocess_add_sample_def preprocess_init_def
      preprocess_set_filter_def preprocess_start_def MAX_WINDOW_SIZE_def WINDOW_BUFFER_SIZE_def)

text \<open>
  Claim C7, amended. After \<^verbatim>\<open>preprocess_init\<close>, the \<open>k\<close>-th call of
  \<^verbatim>\<open>preprocess_add_sample\<close> stores \<open>\<alpha>\<cdot>voltage + (1 - \<alpha>)\<cdot>prev\<close> in the ring at
  position \<open>k mod W\<close>, where \<open>prev\<close> is the previous output of the filter; the value
  stays there for the next \<open>W - 1\<close> insertions. Before the first sample \<open>prev\<close> is the
  value the static \<^verbatim>\<open>filtered_voltage\<close> holds, which is 0 at program start, so the
  first value appended is \<open>\<alpha>\<close> times the first voltage.
\<close>

theorem window_holds_filter_outputs:
  assumes "1 \<le> W" "W \<le> 256"
    and "st = snd (preprocess_init W st0)"
    and "k < length ss" "length ss - k \<le> unat W"
  shows "window_buffer (add_samples st ss) ! (k mod unat W) =
           iir_outputs (filter_alpha st0) (filtered_voltage st0) (map voltage ss) ! k \<and>
         filtered_voltage preprocess_start = 0"
proof -
  note f = preprocess_init_fresh [OF assms(1,2), of st0]
  have "unat W \<le> length (window_buffer st)"
    using f(4) assms(3) window_size_bounds(2) [OF assms(1,2)] by simp
  then have "window_buffer (add_samples st ss) ! (k mod unat W) =
         iir_outputs (filter_alpha st) (filtered_voltage st) (map voltage ss) ! k"
    using add_samples_ring [of st W k ss] f(1-3) assms(3-5) window_size_bounds(1) [OF assms(1,2)]
    by simp
  then show ?thesis using f(5,6) assms(3) by (simp add: preprocess_start_def)
qed

text \<open>With \<open>\<alpha> = 1/2\<close> and voltages 2, 4 the second window value is \<open>5/2\<close>.\<close>

theorem window_holds_filter_outputs_witness:
  "window_buffer
     (add_samples (snd (preprocess_init 4 (snd (preprocess_set_filter (1 / 2) preprocess_start))))
        [\<lparr>voltage = 2, current = 0, timestamp = 0, quality = 100\<rparr>,
         \<lparr>voltage = 4, current = 0, timestamp = 1, quality = 100\<rparr>]) ! 1 = 5 / 2"
proof -
  have h1: "(1::u32) \<le> 4" and h2: "(4::u32) \<le> 256" by simp_all
  have h4: "(1::nat) < length [\<lparr>voltage = 2, current = 0, timestamp = 0, quality = 100\<rparr>,
         \<lparr>voltage = 4, current = 0, timestamp = 1, quality = (100::u8)\<rparr>]" by simp
  have h5: "length [\<lparr>voltage = 2, current = 0, timestamp = 0, quality = 100\<rparr>,
         \<lparr>voltage = 4, current = 0, timestamp = 1, quality = (100::u8)\<rparr>] - 1 \<le> unat (4::u32)" by simp
  show ?thesis
    using window_holds_filter_outputs [OF h1 h2 refl h4 h5,
        of "snd (preprocess_set_filter (1 / 2) preprocess_start)"]
    by (simp add: preprocess_set_filter_def preprocess_start_def)
qed

subsection \<open>Hot-swap engine\<close>

lemma slot_update_state [simp]:
  "hotswap_state (slot_update slot f s) = hotswap_state s"
  "crc32_table (slot_update slot f s) = crc32_table s"
  "time_counter (slot_update slot f s) = time_counter s"
  by (simp_all add: slot_update_def)

lemma set_state_fields [simp]:
  "hotswap_state (set_state f s) = f (hotswap_state s)"
  "crc32_table (set_state f s) = crc32_table s"
  "flash_a (set_state f s) = flash_a s"
  "flash_b (set_state f s) = flash_b s"
  "time_counter (set_state f s) = time_counter s"
  by (simp_all add: set_state_def)

lemma get_system_time_ms_fields [simp]:
  "fst (get_system_time_ms s) = time_counter s"
  "hotswap_state (snd (get_system_time_ms s)) = hotswap_state s"
  "crc32_table (snd (get_system_time_ms s)) = crc32_table s"
  "flash_a (snd (get_system_time_ms s)) = flash_a s"
  "flash_b (snd (get_system_time_ms s)) = flash_b s"
  by (simp_all add: get_system_time_ms_def)

lemma write_agent_to_slot_state:
  "hotswap_state (snd (write_agent_to_slot mg slot d m s)) = hotswap_state s"
  by (auto simp: write_agent_to_slot_def write_slot_metadata_def Let_def split_beta
      split: option.splits)

lemma validate_agent_slot_cong:
  assumes "crc32_table s' = crc32_table s" "flash_a s' = flash_a s" "flash_b s' = flash_b s"
  shows "validate_agent_slot mg s' slot = validate_agent_slot mg s slot"
  using assms by (simp add: validate_agent_slot_def read_slot_metadata_def slot_of_def)

lemma hotswap_init_flag:
  "update_in_progress (hotswap_state (snd (hotswap_init mg s))) = 0"
  by (simp add: hotswap_init_def Let_def hotswap_state_zero_def)

lemma hotswap_update_agent_flag:
  assumes "update_in_progress (hotswap_state s) = 0"
  shows "update_in_progress (hotswap_state (snd (hotswap_update_agent mg d m s))) = 0"
  using assms
  by (auto simp: hotswap_update_agent_def Let_def split_beta split: option.splits)

lemma hotswap_rollback_flag:
  "update_in_progress (hotswap_state (snd (hotswap_rollback mg s))) =
     update_in_progress (hotswap_state s)"
  by (simp add: hotswap_rollback_def Let_def)

lemma hotswap_watchdog_check_idle:
  assumes "update_in_progress (hotswap_state s) = 0"
  shows "hotswap_watchdog_check mg s = s"
  using assms by (simp add: hotswap_watchdog_check_def)

lemma hotswap_clear_slot_state:
  "hotswap_state (snd (hotswap_clear_slot slot s)) = hotswap_state s"
  by (simp add: hotswap_clear_slot_def)

lemma hotswap_do_flag:
  assumes "update_in_progress (hotswap_state s) = 0"
  shows "update_in_progress (hotswap_state (hotswap_do mg s c)) = 0"
  using assms
  by (cases c)
    (simp_all add: hotswap_init_flag hotswap_update_agent_flag hotswap_rollback_flag
      hotswap_watchdog_check_idle hotswap_clear_slot_state)

lemma hotswap_run_flag:
  assumes "update_in_progress (hotswap_state s) = 0"
  shows "update_in_progress (hotswap_state (hotswap_run mg s calls)) = 0"
  using assms unfolding hotswap_run_def
  by (induction calls arbitrary: s) (simp_all add: hotswap_do_flag)

text \<open>
  Claim C10. From program start, over any flash contents and after any run of public
  calls (\<^verbatim>\<open>hotswap_init\<close>, \<^verbatim>\<open>hotswap_update_agent\<close>, \<^verbatim>\<open>hotswap_rollback\<close>,
  \<^verbatim>\<open>hotswap_watchdog_check\<close>, \<^verbatim>\<open>hotswap_clear_slot\<close>) with any arguments,
  \<^verbatim>\<open>update_in_progress\<close> is 0 when the last call has returned: every path of
  \<^verbatim>\<open>hotswap_update_agent\<close> that sets the flag clears it before it returns.
\<close>

theorem never_mid_update_between_calls:
  "update_in_progress (hotswap_state (hotswap_run mg (hotswap_start a b) calls)) = 0"
  by (rule hotswap_run_flag) (simp add: hotswap_start_def hotswap_state_zero_def)


lemma calculate_crc32_empty: "calculate_crc32 tbl [] = 0"
  by (simp add: calculate_crc32_def)

lemma validate_empty_agent_slot:
  assumes "slot_of s slot = empty_agent_slot mg ts" "slot \<le> 1"
  shows "validate_agent_slot mg s slot"
  using assms
  by (simp add: validate_agent_slot_def read_slot_metadata_def empty_agent_slot_def
      calculate_crc32_empty AGENT_SLOT_SIZE_def SLOT_METADATA_SIZE_def not_less [symmetric])

text \<open>
  Claim C6, as stated, fails: with two valid slots of equal timestamp,
  \<^verbatim>\<open>hotswap_init\<close> returns \<^verbatim>\<open>EDGEPLUG_OK\<close> with slot B (1) active, since slot A
  is chosen only when its timestamp is strictly greater.
\<close>

theorem init_tie_counterexample:
  "validate_agent_slot 0xED6E
     (hotswap_start (empty_agent_slot 0xED6E 7) (empty_agent_slot 0xED6E 7)
        \<lparr> crc32_table := init_crc32_table \<rparr>) 0 \<and>
   validate_agent_slot 0xED6E
     (hotswap_start (empty_agent_slot 0xED6E 7) (empty_agent_slot 0xED6E 7)
        \<lparr> crc32_table := init_crc32_table \<rparr>) 1 \<and>
   fst (hotswap_init 0xED6E
     (hotswap_start (empty_agent_slot 0xED6E 7) (empty_agent_slot 0xED6E 7))) = EDGEPLUG_OK \<and>
   hotswap_get_active_slot (snd (hotswap_init 0xED6E
     (hotswap_start (empty_agent_slot 0xED6E 7) (empty_agent_slot 0xED6E 7)))) = 1"
  by (simp add: hotswap_init_def hotswap_get_active_slot_def Let_def validate_empty_agent_slot
      slot_of_def hotswap_start_def)

text \<open>
  Claim C6, amended. Whenever both slots validate (against the table
  \<^verbatim>\<open>hotswap_init\<close> has just built) and their timestamps are equal,
  \<^verbatim>\<open>hotswap_init\<close> succeeds and sets the active slot to slot B.
\<close>

theorem init_tie_selects_slot_b:
  assumes "validate_agent_slot mg (s\<lparr> crc32_table := init_crc32_table \<rparr>) 0"
    and "validate_agent_slot mg (s\<lparr> crc32_table := init_crc32_table \<rparr>) 1"
    and "timestamp_md (metadata (flash_a s)) = timestamp_md (metadata (flash_b s))"
  shows "fst (hotswap_init mg s) = EDGEPLUG_OK \<and>
         hotswap_get_active_slot (snd (hotswap_init mg s)) = 1"
proof -
  let ?s = "s\<lparr> crc32_table := init_crc32_table, hotswap_state := hotswap_state_zero \<rparr>"
  have "validate_agent_slot mg ?s 0" "validate_agent_slot mg ?s 1"
    using assms(1,2)
    by (simp_all add: validate_agent_slot_cong [of ?s "s\<lparr> crc32_table := init_crc32_table \<rparr>"])
  then show ?thesis
    using assms(3) by (simp add: hotswap_init_def Let_def hotswap_get_active_slot_def)
qed

text \<open>
  Two slots holding a valid empty agent, both with timestamp 3.
\<close>

theorem init_tie_selects_slot_b_witness:
  "fst (hotswap_init 0xED6E
     (hotswap_start (empty_agent_slot 0xED6E 3) (empty_agent_slot 0xED6E 3))) = EDGEPLUG_OK \<and>
   hotswap_get_active_slot (snd (hotswap_init 0xED6E
     (hotswap_start (empty_agent_slot 0xED6E 3) (empty_agent_slot 0xED6E 3)))) = 1"
proof -
  let ?s = "hotswap_start (empty_agent_slot 0xED6E 3) (empty_agent_slot 0xED6E 3)"
  have a: "validate_agent_slot 0xED6E (?s\<lparr> crc32_table := init_crc32_table \<rparr>) 0"
    by (rule validate_empty_agent_slot [where ts = 3]) (simp_all add: slot_of_def hotswap_start_def)
  have b: "validate_agent_slot 0xED6E (?s\<lparr> crc32_table := init_crc32_table \<rparr>) 1"
    by (rule validate_empty_agent_slot [where ts = 3]) (simp_all add: slot_of_def hotswap_start_def)
  have c: "timestamp_md (metadata (flash_a ?s)) = timestamp_md (metadata (flash_b ?s))"
    by (simp add: hotswap_start_def)
  show ?thesis by (rule init_tie_selects_slot_b [OF a b c])
qed

text \<open>
  What \<^verbatim>\<open>hotswap_watchdog_check\<close> does in every state. When
  \<^verbatim>\<open>update_in_progress\<close> is set and the 32-bit difference between the clock and
  \<^verbatim>\<open>update_start_time\<close> exceeds 30000, it clears the flag, adds one to
  \<^verbatim>\<open>failed_updates\<close> and, through \<^verbatim>\<open>hotswap_rollback\<close>, makes the other slot the
  active one when that slot validates; the flash is not written. In every other state the
  engine's state, the flash and the CRC table are unchanged.
\<close>

lemma watchdog_check_effect:
  "(update_in_progress (hotswap_state s) \<noteq> 0 \<and>
    time_counter s - update_start_time (hotswap_state s) > 30000 \<longrightarrow>
      update_in_progress (hotswap_state (hotswap_watchdog_check mg s)) = 0 \<and>
      failed_updates (hotswap_state (hotswap_watchdog_check mg s)) = failed_updates (hotswap_state s) + 1 \<and>
      active_slot (hotswap_state (hotswap_watchdog_check mg s)) =
        (if validate_agent_slot mg s (get_inactive_slot s) then get_inactive_slot s
         else active_slot (hotswap_state s)) \<and>
      flash_a (hotswap_watchdog_check mg s) = flash_a s \<and>
      flash_b (hotswap_watchdog_check mg s) = flash_b s) \<and>
   (\<not> (update_in_progress (hotswap_state s) \<noteq> 0 \<and>
       time_counter s - update_start_time (hotswap_state s) > 30000) \<longrightarrow>
      hotswap_state (hotswap_watchdog_check mg s) = hotswap_state s \<and>
      flash_a (hotswap_watchdog_check mg s) = flash_a s \<and>
      flash_b (hotswap_watchdog_check mg s) = flash_b s \<and>
      crc32_table (hotswap_watchdog_check mg s) = crc32_table s)"
proof -
  let ?s1 = "snd (get_system_time_ms s)"
  have v: "validate_agent_slot mg ?s1 (get_inactive_slot ?s1) = validate_agent_slot mg s (get_inactive_slot s)"
    by (simp add: get_inactive_slot_def validate_agent_slot_cong [of ?s1 s])
  have g: "get_inactive_slot ?s1 = get_inactive_slot s"
    by (simp add: get_inactive_slot_def)
  show ?thesis
    using v g
    by (simp add: hotswap_watchdog_check_def split_beta Let_def hotswap_rollback_def)
qed

text \<open>
  \<^verbatim>\<open>hotswap_update_agent\<close> continues from the state after its write with the
  validation and the commit, and every one of its failure paths keeps the active slot.
\<close>

lemma hotswap_update_agent_after_write:
  assumes "update_in_progress (hotswap_state s) = 0"
  shows "hotswap_update_agent mg (Some d) (Some m) s =
     (let (status, s3) = update_agent_write_step mg d m s
      in if status \<noteq> EDGEPLUG_OK then
           (status, set_state (\<lambda>h. h\<lparr> update_in_progress := 0,
                                      failed_updates := failed_updates h + 1 \<rparr>) s3)
         else if \<not> validate_agent_slot mg s3 (get_inactive_slot s) then
           (EDGEPLUG_ERROR_HOTSWAP,
            set_state (\<lambda>h. h\<lparr> update_in_progress := 0,
                              failed_updates := failed_updates h + 1 \<rparr>) s3)
         else
           (let s4 = set_state (\<lambda>h. h\<lparr> active_slot := get_inactive_slot s, update_in_progress := 0,
                                        successful_updates := successful_updates h + 1 \<rparr>) s3;
                (t1, s5) = get_system_time_ms s4
            in (EDGEPLUG_OK, set_state (\<lambda>h. h\<lparr> last_update_timestamp := t1 \<rparr>) s5)))"
  using assms
  by (simp add: hotswap_update_agent_def update_agent_write_step_def split_beta Let_def
      get_inactive_slot_def)

lemma hotswap_update_agent_failure_keeps_slot:
  assumes "fst (hotswap_update_agent mg d m s) \<noteq> EDGEPLUG_OK"
  shows "active_slot (hotswap_state (snd (hotswap_update_agent mg d m s))) =
         active_slot (hotswap_state s)"
  using assms
  by (auto simp: hotswap_update_agent_def Let_def split_beta write_agent_to_slot_state
      split: option.splits if_splits)

text \<open>
  While the flag is set and the update is not older than 30000 ms, a call of
  \<^verbatim>\<open>hotswap_watchdog_check\<close> only reads the clock, which counts its reads.
\<close>

lemma watchdog_waits:
  assumes "update_in_progress (hotswap_state s) \<noteq> 0"
    and "unat (time_counter s - update_start_time (hotswap_state s)) + k \<le> 30001"
  shows "(hotswap_watchdog_check mg ^^ k) s = s\<lparr> time_counter := time_counter s + of_nat k \<rparr>"
  using assms
proof (induction k arbitrary: s)
  case 0
  then show ?case by simp
next
  case (Suc k)
  let ?d = "time_counter s - update_start_time (hotswap_state s)"
  have d: "unat ?d \<le> 30000" using Suc.prems(2) by simp
  then have nd: "\<not> ?d > 30000" by (simp add: word_less_nat_alt)
  have step: "hotswap_watchdog_check mg s = s\<lparr> time_counter := time_counter s + 1 \<rparr>"
    using Suc.prems(1) nd
    by (simp add: hotswap_watchdog_check_def get_system_time_ms_def Let_def)
  let ?s = "s\<lparr> time_counter := time_counter s + 1 \<rparr>"
  have e: "time_counter ?s - update_start_time (hotswap_state ?s) = ?d + 1" by simp
  have u: "unat (?d + 1) = unat ?d + 1"
    using d by (simp add: unat_word_ariths)
  have b: "unat (time_counter ?s - update_start_time (hotswap_state ?s)) + k \<le> 30001"
    unfolding e u using Suc.prems(2) by simp
  have f: "update_in_progress (hotswap_state ?s) \<noteq> 0" using Suc.prems(1) by simp
  have "(hotswap_watchdog_check mg ^^ Suc k) s = (hotswap_watchdog_check mg ^^ k) ?s"
    by (simp add: funpow_swap1 step)
  also have "\<dots> = ?s\<lparr> time_counter := time_counter ?s + of_nat k \<rparr>"
    by (rule Suc.IH [OF f b])
  finally show ?case by (simp add: add.assoc add.commute)
qed

text \<open>
  The stalled update of the example: the flag is set, the clock has been read twice, slot A
  is untouched and slot B holds the image with metadata that validates.
\<close>

lemma stalled_update_fields:
  "hotswap_state stalled_update =
     hotswap_state_zero\<lparr> update_in_progress := 1, update_attempts := 1 \<rparr>"
  "time_counter stalled_update = 2"
  "flash_a stalled_update = empty_agent_slot 0xED6E 5"
  "take 3 (payload (flash_b stalled_update)) = [1, 2, 3]"
  "validate_agent_slot 0xED6E stalled_update 1"
  by (simp_all add: stalled_update_def update_agent_write_step_def hotswap_init_def
      hotswap_start_def get_system_time_ms_def set_state_def write_agent_to_slot_def
      write_slot_metadata_def slot_update_def get_inactive_slot_def hotswap_state_zero_def
      validate_agent_slot_def read_slot_metadata_def slot_of_def empty_agent_slot_def
      erased_slot_def calculate_crc32_empty AGENT_SLOT_SIZE_def SLOT_METADATA_SIZE_def
      split_beta Let_def)


text \<open>
  Claim C3 (the code differs from it). The engine is initialised over a valid slot A and
  an erased slot B, so slot A is active, and an update has written the image 1, 2, 3 to
  slot B and stalls before it is validated and committed. The watchdog is polled: 29999
  polls leave slot A active, and the 30000th, which measures 30001 ms, makes slot B active,
  the slot that holds the uncommitted image, and counts a failed update. The claim wants
  the slot that was active when the update began to stay active.
\<close>

theorem watchdog_activates_uncommitted_image:
  "fst (hotswap_init 0xED6E (hotswap_start (empty_agent_slot 0xED6E 5) erased_slot)) = EDGEPLUG_OK \<and>
   hotswap_get_active_slot
     (snd (hotswap_init 0xED6E (hotswap_start (empty_agent_slot 0xED6E 5) erased_slot))) = 0 \<and>
   hotswap_is_update_in_progress stalled_update \<and>
   hotswap_get_active_slot stalled_update = 0 \<and>
   hotswap_get_active_slot ((hotswap_watchdog_check 0xED6E ^^ 29999) stalled_update) = 0 \<and>
   hotswap_get_active_slot
     (hotswap_watchdog_check 0xED6E ((hotswap_watchdog_check 0xED6E ^^ 29999) stalled_update)) = 1 \<and>
   failed_updates (hotswap_state
     (hotswap_watchdog_check 0xED6E ((hotswap_watchdog_check 0xED6E ^^ 29999) stalled_update))) = 1 \<and>
   take 3 (payload (flash_b
     (hotswap_watchdog_check 0xED6E ((hotswap_watchdog_check 0xED6E ^^ 29999) stalled_update))))
     = [1, 2, 3]"
proof -
  let ?s0 = "hotswap_start (empty_agent_slot 0xED6E 5) erased_slot"
  let ?w = "stalled_update\<lparr> time_counter := time_counter stalled_update + of_nat 29999 \<rparr>"
  have va: "validate_agent_slot 0xED6E
      (?s0\<lparr> crc32_table := init_crc32_table, hotswap_state := hotswap_state_zero \<rparr>) 0"
    by (rule validate_empty_agent_slot [where ts = 5]) (simp_all add: slot_of_def hotswap_start_def)
  have vb: "\<not> validate_agent_slot 0xED6E
      (?s0\<lparr> crc32_table := init_crc32_table, hotswap_state := hotswap_state_zero \<rparr>) 1"
    by (simp add: validate_agent_slot_def read_slot_metadata_def slot_of_def hotswap_start_def
        erased_slot_def)
  have init: "fst (hotswap_init 0xED6E ?s0) = EDGEPLUG_OK"
    "hotswap_get_active_slot (snd (hotswap_init 0xED6E ?s0)) = 0"
    using va vb by (simp_all add: hotswap_init_def Let_def hotswap_get_active_slot_def)
  have busy: "update_in_progress (hotswap_state stalled_update) \<noteq> 0"
    and act: "active_slot (hotswap_state stalled_update) = 0"
    and fail: "failed_updates (hotswap_state stalled_update) = 0"
    and start: "update_start_time (hotswap_state stalled_update) = 0"
    by (simp_all add: stalled_update_fields hotswap_state_zero_def)
  have "unat (time_counter stalled_update - update_start_time (hotswap_state stalled_update))
          + 29999 \<le> 30001"
    by (simp add: stalled_update_fields hotswap_state_zero_def)
  from watchdog_waits [OF busy this]
  have polls: "(hotswap_watchdog_check 0xED6E ^^ 29999) stalled_update = ?w" .
  have late: "update_in_progress (hotswap_state ?w) \<noteq> 0 \<and>
      time_counter ?w - update_start_time (hotswap_state ?w) > 30000"
    by (simp add: stalled_update_fields hotswap_state_zero_def)
  have "validate_agent_slot 0xED6E ?w 1 = validate_agent_slot 0xED6E stalled_update 1"
    by (rule validate_agent_slot_cong) simp_all
  then have vw: "validate_agent_slot 0xED6E ?w (get_inactive_slot ?w)"
    using stalled_update_fields(5) act by (simp add: get_inactive_slot_def)
  note fired = watchdog_check_effect [of ?w "0xED6E", THEN conjunct1, rule_format, OF late]
  show ?thesis
    unfolding polls
    using init busy act fail fired vw stalled_update_fields(4)
    by (simp add: hotswap_get_active_slot_def hotswap_is_update_in_progress_def
        get_inactive_slot_def)
qed

subsection \<open>Actuator layer\<close>

lemma finish_actuation_keeps:
  "sent (snd (finish_actuation t st)) = sent st"
  "modbus_slave_id (snd (finish_actuation t st)) = modbus_slave_id st"
  "gpio_initialized (snd (finish_actuation t st)) = gpio_initialized st"
  by (simp_all add: finish_actuation_def split_beta Let_def)

lemma actuator_write_opcua_sent:
  assumes "node_id \<noteq> 0"
  shows "sent (snd (actuator_write_opcua node_id v st)) =
           sent st @ [Opcua_write (opcua_request node_id) v]"
    and "modbus_slave_id (snd (actuator_write_opcua node_id v st)) = modbus_slave_id st"
  using assms
  by (simp_all add: actuator_write_opcua_def finish_actuation_keeps split_beta Let_def
      split: option.split)

lemma actuator_write_modbus_sent:
  assumes "address \<noteq> 0"
  shows "sent (snd (actuator_write_modbus address v st)) =
           sent st @ [Modbus_write (modbus_frame (modbus_slave_id st) address v)]"
  using assms
  by (simp add: actuator_write_modbus_def finish_actuation_keeps split_beta Let_def
      split: option.split)

lemma actuator_write_gpio_sent:
  assumes "fst (actuator_write_gpio pin state st) = EDGEPLUG_OK"
  shows "sent (snd (actuator_write_gpio pin state st)) = sent st @ [Gpio_write pin state]"
  using assms
  by (simp add: actuator_write_gpio_def finish_actuation_keeps split_beta Let_def
      split: option.split if_splits)

text \<open>
  For a command that returns \<^verbatim>\<open>EDGEPLUG_OK\<close>, the writes handed to the transports
  are, in this order: the OPC-UA write exactly when \<^verbatim>\<open>opcua_node\<close> is not 0, the
  Modbus write exactly when \<^verbatim>\<open>modbus_addr\<close> is not 0, and the GPIO write exactly when
  \<^verbatim>\<open>gpio_pin\<close> is below \<^verbatim>\<open>MAX_GPIO_PINS\<close>.
\<close>

lemma execute_command_writes:
  assumes "actuator_execute_command (Some cmd) st = Some (EDGEPLUG_OK, st')"
  shows "sent st' =
      sent st
      @ (if opcua_node cmd \<noteq> 0
         then [Opcua_write (opcua_request (opcua_node cmd)) (value_cmd cmd)] else [])
      @ (if modbus_addr cmd \<noteq> 0
         then [Modbus_write (modbus_frame (modbus_slave_id st) (modbus_addr cmd)
                 (the (float_to_u16 (value_cmd cmd))))] else [])
      @ (if unat (gpio_pin cmd) < MAX_GPIO_PINS
         then [Gpio_write (gpio_pin cmd) (gpio_state cmd)] else [])"
proof -
  define r1 where "r1 = (if opcua_node cmd = 0 then (EDGEPLUG_OK, st)
                  else actuator_write_opcua (opcua_node cmd) (value_cmd cmd) st)"
  define r2 where "r2 = (if modbus_addr cmd = 0 then Some (EDGEPLUG_OK, snd r1)
       else map_option (\<lambda>v. actuator_write_modbus (modbus_addr cmd) v (snd r1))
              (float_to_u16 (value_cmd cmd)))"
  have ex: "actuator_execute_command (Some cmd) st =
      (if fst r1 = EDGEPLUG_OK then
         (case r2 of
            None \<Rightarrow> None
          | Some p2 \<Rightarrow>
              if fst p2 = EDGEPLUG_OK then
                (let r3 = (if unat (gpio_pin cmd) < MAX_GPIO_PINS
                           then actuator_write_gpio (gpio_pin cmd) (gpio_state cmd) (snd p2)
                           else (EDGEPLUG_OK, snd p2))
                 in if fst r3 = EDGEPLUG_OK then Some (EDGEPLUG_OK, snd r3) else Some r3)
              else Some p2)
       else Some r1)"
    by (simp add: actuator_execute_command_def r1_def r2_def split_beta Let_def
        split: option.split)
  from assms ex obtain p2 where ok1: "fst r1 = EDGEPLUG_OK" and p2: "r2 = Some p2"
    and ok2: "fst p2 = EDGEPLUG_OK"
    by (auto split: if_splits option.splits simp: prod_eq_iff)
  define r3 where "r3 = (if unat (gpio_pin cmd) < MAX_GPIO_PINS
                           then actuator_write_gpio (gpio_pin cmd) (gpio_state cmd) (snd p2)
                           else (EDGEPLUG_OK, snd p2))"
  have ok3: "fst r3 = EDGEPLUG_OK" and st': "st' = snd r3"
    using assms ex ok1 p2 ok2 by (auto simp: r3_def Let_def split: if_splits)
  have s1: "sent (snd r1) = sent st @ (if opcua_node cmd \<noteq> 0
         then [Opcua_write (opcua_request (opcua_node cmd)) (value_cmd cmd)] else [])"
    and id1: "modbus_slave_id (snd r1) = modbus_slave_id st"
    by (simp_all add: r1_def actuator_write_opcua_sent)
  have s2: "sent (snd p2) = sent (snd r1) @ (if modbus_addr cmd \<noteq> 0
         then [Modbus_write (modbus_frame (modbus_slave_id st) (modbus_addr cmd)
                 (the (float_to_u16 (value_cmd cmd))))] else [])"
    using p2 by (auto simp: r2_def actuator_write_modbus_sent id1 split: if_splits)
  have s3: "sent (snd r3) = sent (snd p2) @ (if unat (gpio_pin cmd) < MAX_GPIO_PINS
         then [Gpio_write (gpio_pin cmd) (gpio_state cmd)] else [])"
    using ok3 by (simp add: r3_def actuator_write_gpio_sent split: if_splits)
  show ?thesis unfolding st' s3 s2 s1 by simp
qed
text \<open>
  Claim C4 (the code differs from it). The all-zero command, which the runtime builds to
  say ``no actuation'', succeeds and writes state 0 to GPIO pin 0: the test before the
  GPIO write is \<^verbatim>\<open>gpio_pin < MAX_GPIO_PINS\<close>, where the two tests before it skip on 0.
  The claim wants no discrete line write for \<^verbatim>\<open>gpio_pin = 0\<close>.
\<close>

theorem no_actuation_command_writes_gpio:
  "map_option (\<lambda>(status, st). (status, sent st))
     (actuator_execute_command (Some no_actuation_cmd) (snd (actuator_init actuator_start)))
     = Some (EDGEPLUG_OK, [Gpio_write 0 0])"
  by (simp add: actuator_execute_command_def no_actuation_cmd_def actuator_write_gpio_def
      actuator_init_def actuator_start_def finish_actuation_def clock_read_def software_timer_def
      find_entry_def MAX_GPIO_PINS_def Let_def)

subsection \<open>Agent loader\<close>











text \<open>
  The envelope with the three keys has them.
\<close>

lemma envelope_with_keys_has_them: "envelope_has_mandatory_keys envelope_model_prep_act"
proof -
  have hdr: "cbor_parse_header envelope_model_prep_act 0 = Some (5, 3, 1)"
    by (simp add: envelope_model_prep_act_def cbor_parse_header_def cbor_read_byte_def Let_def)
  have keys: "envelope_keys envelope_model_prep_act 3 1 =
      Some [[0x6D, 0x6F, 0x64, 0x65, 0x6C], [0x70, 0x72, 0x65, 0x70], [0x61, 0x63, 0x74]]"
    unfolding numeral_3_eq_3
    by (simp add: envelope_model_prep_act_def cbor_parse_header_def cbor_read_byte_def Let_def)
  show ?thesis
    unfolding envelope_has_mandatory_keys_def hdr
    by (simp add: keys)
qed

subsection \<open>Inference\<close>

lemma cmsis_nn_inference_keeps:
  assumes "cmsis_nn_inference n out osz st = Some (status, out', osz', st')"
  shows "inference_count st' = inference_count st"
    and "total_inference_time st' = total_inference_time st"
    and "max_inference_time st' = max_inference_time st"
    and "infer_clock st' = infer_clock st"
  using assms
  by (auto simp: cmsis_nn_inference_def split: if_splits option.splits prod.splits)

text \<open>
  Claim C9, amended. When a call of \<^verbatim>\<open>infer_int8\<close> that gets as far as the inference
  measures more than 1 ms between its two reads of the timer, it returns
  \<^verbatim>\<open>EDGEPLUG_ERROR_INFERENCE\<close>, and the count \<^verbatim>\<open>infer_get_stats\<close> reports is one more
  than before the call: the statistics are updated before the budget is checked.
\<close>

theorem budget_breach_counts_the_call:
  assumes "infer_int8 (Some inp) (Some out) (Some osz) st = Some (status, out', osz', st')"
    and "model_loaded st" and "length inp \<le> INFERENCE_BUFFER_SIZE"
    and "readings (infer_clock st) (Suc (reads (infer_clock st)))
           - readings (infer_clock st) (reads (infer_clock st)) > 1"
  shows "status = EDGEPLUG_ERROR_INFERENCE \<and>
         fst (infer_get_stats st') = fst (infer_get_stats st) + 1"
proof -
  let ?c1 = "snd (clock_read (infer_clock st))"
  let ?st1 = "st\<lparr> infer_clock := ?c1,
                    inference_buffer := inp @ drop (length inp) (inference_buffer st) \<rparr>"
  obtain s2 o2 z2 st2 where nn: "cmsis_nn_inference (length inp) out osz ?st1 = Some (s2, o2, z2, st2)"
    using assms(1-3)
    by (auto simp: infer_int8_def split_beta Let_def split: option.splits)
  note k = cmsis_nn_inference_keeps [OF nn]
  have t: "fst (clock_read (infer_clock st2)) - fst (clock_read (infer_clock st)) > 1"
    using assms(4) k(4) by (simp add: clock_read_def)
  show ?thesis
    using assms(1-3) nn t k(1)
    by (auto simp: infer_int8_def split_beta Let_def infer_get_stats_def)
qed

text \<open>
  Claim C9, as stated, fails: with a timer that advances 5 ms per read, the call returns
  \<^verbatim>\<open>EDGEPLUG_ERROR_INFERENCE\<close> and the count goes from 0 to 1.
\<close>

theorem budget_breach_counterexample:
  "map_option (\<lambda>(status, out, osz, st). (status, fst (infer_get_stats st)))
     (infer_int8 (Some [7]) (Some [0]) (Some 0)
        (snd (infer_load_model (Some identity_model) (infer_start slow_clock))))
     = Some (EDGEPLUG_ERROR_INFERENCE, 1) \<and>
   fst (infer_get_stats (snd (infer_load_model (Some identity_model) (infer_start slow_clock)))) = 0"
  by (simp add: infer_int8_def infer_load_model_def infer_start_def slow_clock_def clock_read_def
      cmsis_nn_inference_def read_u32_def identity_model_def infer_get_stats_def
      INFERENCE_BUFFER_SIZE_def MAX_MODEL_SIZE_def Let_def nth_append)


text \<open>
  The same model and timer with another input.
\<close>

theorem budget_breach_counts_the_call_witness:
  "map_option (\<lambda>(status, out, osz, st). (status, fst (infer_get_stats st)))
     (infer_int8 (Some [9]) (Some [0, 0]) (Some 0)
        (snd (infer_load_model (Some identity_model) (infer_start slow_clock))))
     = Some (EDGEPLUG_ERROR_INFERENCE, 1)"
proof -
  let ?st = "snd (infer_load_model (Some identity_model) (infer_start slow_clock))"
  have "\<exists>r. infer_int8 (Some [9]) (Some [0, 0]) (Some 0) ?st = Some r"
    by (simp add: infer_int8_def infer_load_model_def infer_start_def slow_clock_def clock_read_def
      cmsis_nn_inference_def read_u32_def identity_model_def
      INFERENCE_BUFFER_SIZE_def MAX_MODEL_SIZE_def Let_def nth_append)
  then obtain status out' osz' st' where
    r: "infer_int8 (Some [9]) (Some [0, 0]) (Some 0) ?st = Some (status, out', osz', st')"
    by (metis prod_cases4)
  have loaded: "model_loaded ?st"
    by (simp add: infer_load_model_def identity_model_def MAX_MODEL_SIZE_def)
  have len: "length [9 :: s8] \<le> INFERENCE_BUFFER_SIZE"
    by (simp add: INFERENCE_BUFFER_SIZE_def)
  have slow: "readings (infer_clock ?st) (Suc (reads (infer_clock ?st)))
           - readings (infer_clock ?st) (reads (infer_clock ?st)) > 1"
    by (simp add: infer_load_model_def identity_model_def MAX_MODEL_SIZE_def infer_start_def
        slow_clock_def)
  have zero: "fst (infer_get_stats ?st) = 0"
    by (simp add: infer_load_model_def identity_model_def MAX_MODEL_SIZE_def infer_start_def
        infer_get_stats_def)
  show ?thesis
    using budget_breach_counts_the_call [OF r loaded len slow] r zero by simp
qed

end
